theory Spec2Isabelle
  imports Complex_Main "HOL-Library.Monad_Syntax"
begin

section \<open>Numbers and strings of the source language\<close>

text \<open>
  The calculation engine is TypeScript. The \<^verbatim>\<open>number\<close> values of its inputs are modelled
  as exact rationals: \<open>+\<close>, \<open>*\<close> and \<open>/\<close> are exact, so the binary rounding of IEEE
  doubles, and inputs that are NaN or infinite, are outside the model. Every division of
  the source has a divisor that is a non-zero literal, a \<^verbatim>\<open>Math.max(_, 1)\<close>, or a value
  the code has just tested (\<^verbatim>\<open>> 0\<close>, \<^verbatim>\<open>=== 0\<close>, \<^verbatim>\<open>|| 1000\<close>), so no division by zero is
  taken here (lemma \<open>guarded_divisors\<close>). The one way in which the code itself makes a NaN
  out of rational inputs is modelled: see the values of type \<open>jsnum\<close> below.

  Strings are byte lists holding the UTF-8 encoding of the source string.
\<close>

type_synonym number = rat

definition js_round :: "number \<Rightarrow> number" where
  \<comment> \<open>\<^verbatim>\<open>Math.round\<close>: the nearest integer, a tie going up.\<close>
  "js_round x = of_int \<lfloor>x + 1 / 2\<rfloor>"

definition or_else :: "number \<Rightarrow> number \<Rightarrow> number" where
  \<comment> \<open>\<^verbatim>\<open>x || d\<close> on numbers: \<open>0\<close> is falsy.\<close>
  "or_else x d = (if x = 0 then d else x)"

definition digit_char :: "nat \<Rightarrow> char" where
  "digit_char d = char_of (48 + d)"

fun digits :: "nat \<Rightarrow> string" where
  "digits n = (if n < 10 then [digit_char n] else digits (n div 10) @ [digit_char (n mod 10)])"

declare digits.simps [simp del]

definition toFixed :: "nat \<Rightarrow> number \<Rightarrow> string" where
  \<comment> \<open>\<^verbatim>\<open>x.toFixed(d)\<close> for magnitudes below \<open>10^21\<close> (above, the source language switches
      to exponent notation): the sign, then the nearest multiple of \<open>10^-d\<close>, a tie going
      away from zero.\<close>
  "toFixed d x =
     (let n = nat \<lfloor>\<bar>x\<bar> * 10 ^ d + 1 / 2\<rfloor>;
          s = digits n;
          s = replicate (Suc d - length s) (CHR ''0'') @ s;
          body = (if d = 0 then s
                  else take (length s - d) s @ ''.'' @ drop (length s - d) s)
      in (if x < 0 then ''-'' else '''') @ body)"

definition toString :: "number \<Rightarrow> string" where
  \<comment> \<open>The text of an integer-valued number inside a template string, for magnitudes
      below \<open>10^21\<close>.\<close>
  "toString x = (if x < 0 then ''-'' else '''') @ digits (nat \<bar>\<lfloor>x\<rfloor>\<bar>)"

definition white_space :: "string list" where
  \<comment> \<open>The white space and line terminator characters that \<^verbatim>\<open>trim\<close> removes, in
      UTF-8: U+0009..U+000D, U+0020, U+00A0, U+1680, U+2000..U+200A, U+2028, U+2029,
      U+202F, U+205F, U+3000, U+FEFF.\<close>
  "white_space =
     [[CHR 0x09], [CHR 0x0A], [CHR 0x0B], [CHR 0x0C], [CHR 0x0D], [CHR 0x20],
      [CHR 0xC2, CHR 0xA0], [CHR 0xE1, CHR 0x9A, CHR 0x80],
      [CHR 0xE2, CHR 0x80, CHR 0x80], [CHR 0xE2, CHR 0x80, CHR 0x81],
      [CHR 0xE2, CHR 0x80, CHR 0x82], [CHR 0xE2, CHR 0x80, CHR 0x83],
      [CHR 0xE2, CHR 0x80, CHR 0x84], [CHR 0xE2, CHR 0x80, CHR 0x85],
      [CHR 0xE2, CHR 0x80, CHR 0x86], [CHR 0xE2, CHR 0x80, CHR 0x87],
      [CHR 0xE2, CHR 0x80, CHR 0x88], [CHR 0xE2, CHR 0x80, CHR 0x89],
      [CHR 0xE2, CHR 0x80, CHR 0x8A], [CHR 0xE2, CHR 0x80, CHR 0xA8],
      [CHR 0xE2, CHR 0x80, CHR 0xA9], [CHR 0xE2, CHR 0x80, CHR 0xAF],
      [CHR 0xE2, CHR 0x81, CHR 0x9F], [CHR 0xE3, CHR 0x80, CHR 0x80],
      [CHR 0xEF, CHR 0xBB, CHR 0xBF]]"

definition starts_with :: "string \<Rightarrow> string \<Rightarrow> bool" where
  "starts_with s t = (take (length t) s = t)"

fun trimStart :: "string \<Rightarrow> string" where
  "trimStart [] = []"
| "trimStart (c # cs) =
     (if list_ex (starts_with (c # cs)) (filter (\<lambda>t. length t = 1) white_space)
        then trimStart cs
      else if list_ex (starts_with (c # cs)) (filter (\<lambda>t. length t = 2) white_space)
        then trimStart (drop 1 cs)
      else if list_ex (starts_with (c # cs)) (filter (\<lambda>t. length t = 3) white_space)
        then trimStart (drop 2 cs)
      else c # cs)"

fun trimEnd_rev :: "string \<Rightarrow> string" where
  \<comment> \<open>\<open>trimStart\<close> on the reversed string, against the reversed encodings.\<close>
  "trimEnd_rev [] = []"
| "trimEnd_rev (c # cs) =
     (if list_ex (starts_with (c # cs)) (map rev (filter (\<lambda>t. length t = 1) white_space))
        then trimEnd_rev cs
      else if list_ex (starts_with (c # cs)) (map rev (filter (\<lambda>t. length t = 2) white_space))
        then trimEnd_rev (drop 1 cs)
      else if list_ex (starts_with (c # cs)) (map rev (filter (\<lambda>t. length t = 3) white_space))
        then trimEnd_rev (drop 2 cs)
      else c # cs)"

definition trim :: "string \<Rightarrow> string" where
  "trim s = rev (trimEnd_rev (rev (trimStart s)))"

definition is_upper :: "char \<Rightarrow> bool" where
  "is_upper c \<longleftrightarrow> (65::nat) \<le> of_char c \<and> of_char c \<le> (90::nat)"

definition is_lower_or_digit :: "char \<Rightarrow> bool" where
  \<comment> \<open>The character class \<^verbatim>\<open>[a-z0-9]\<close>.\<close>
  "is_lower_or_digit c \<longleftrightarrow>
     ((97::nat) \<le> of_char c \<and> of_char c \<le> (122::nat))
     \<or> ((48::nat) \<le> of_char c \<and> of_char c \<le> (57::nat))"

fun toLowerCase :: "string \<Rightarrow> string" where
  \<comment> \<open>\<^verbatim>\<open>toLowerCase\<close> as far as ASCII output goes: A..Z, and the two other characters
      whose lower case holds an ASCII letter, U+212A (Kelvin sign, to \<open>k\<close>) and U+0130
      (to \<open>i\<close> followed by U+0307). Every other character is left as it is; its lower
      case is not ASCII either.\<close>
  "toLowerCase [] = []"
| "toLowerCase (c # cs) =
     (if is_upper c then char_of (of_char c + (32::nat)) # toLowerCase cs
      else if starts_with (c # cs) [CHR 0xE2, CHR 0x84, CHR 0xAA]
        then CHR ''k'' # toLowerCase (drop 2 cs)
      else if starts_with (c # cs) [CHR 0xC4, CHR 0xB0]
        then CHR ''i'' # CHR 0xCC # CHR 0x87 # toLowerCase (drop 1 cs)
      else c # toLowerCase cs)"

fun includes_str :: "string \<Rightarrow> string \<Rightarrow> bool" where
  \<comment> \<open>\<^verbatim>\<open>s.includes(key)\<close>: \<open>key\<close> starts at some position of \<open>s\<close>.\<close>
  "includes_str [] key = (key = [])"
| "includes_str (c # cs) key = (starts_with (c # cs) key \<or> includes_str cs key)"

subsection \<open>Values that may be NaN\<close>

text \<open>
  With rational inputs one operation of the engine still yields a value that is not a
  number: the lookup of an energy factor in an object literal, which also finds the
  properties every object inherits. The product with such a value is NaN, and NaN goes on
  through the arithmetic that follows. The values on that path have type \<open>jsnum\<close>:
  arithmetic with NaN gives NaN, \<^verbatim>\<open>Math.round\<close>, \<^verbatim>\<open>Math.max\<close> and \<^verbatim>\<open>Math.min\<close> of NaN are NaN,
  and every comparison with NaN is false.
\<close>

datatype jsnum = Num number | NaN

fun jadd :: "jsnum \<Rightarrow> jsnum \<Rightarrow> jsnum" where
  "jadd (Num a) (Num b) = Num (a + b)"
| "jadd _ _ = NaN"

fun jsub :: "jsnum \<Rightarrow> jsnum \<Rightarrow> jsnum" where
  "jsub (Num a) (Num b) = Num (a - b)"
| "jsub _ _ = NaN"

fun jmul :: "jsnum \<Rightarrow> jsnum \<Rightarrow> jsnum" where
  "jmul (Num a) (Num b) = Num (a * b)"
| "jmul _ _ = NaN"

fun jdiv :: "jsnum \<Rightarrow> jsnum \<Rightarrow> jsnum" where
  \<comment> \<open>Every divisor the source reaches is a number other than 0, or NaN.\<close>
  "jdiv (Num a) (Num b) = Num (a / b)"
| "jdiv _ _ = NaN"

fun jround :: "jsnum \<Rightarrow> jsnum" where
  "jround (Num a) = Num (js_round a)"
| "jround NaN = NaN"

fun jmax :: "jsnum \<Rightarrow> jsnum \<Rightarrow> jsnum" where
  "jmax (Num a) (Num b) = Num (max a b)"
| "jmax _ _ = NaN"

fun jmin :: "jsnum \<Rightarrow> jsnum \<Rightarrow> jsnum" where
  "jmin (Num a) (Num b) = Num (min a b)"
| "jmin _ _ = NaN"

fun jlt :: "jsnum \<Rightarrow> jsnum \<Rightarrow> bool" where
  "jlt (Num a) (Num b) = (a < b)"
| "jlt _ _ = False"

fun jgt :: "jsnum \<Rightarrow> jsnum \<Rightarrow> bool" where
  "jgt (Num a) (Num b) = (a > b)"
| "jgt _ _ = False"

fun jge :: "jsnum \<Rightarrow> jsnum \<Rightarrow> bool" where
  "jge (Num a) (Num b) = (a \<ge> b)"
| "jge _ _ = False"

fun jsnum_toFixed :: "nat \<Rightarrow> jsnum \<Rightarrow> string" where
  "jsnum_toFixed d (Num a) = toFixed d a"
| "jsnum_toFixed d NaN = ''NaN''"

fun jsnum_toString :: "jsnum \<Rightarrow> string" where
  "jsnum_toString (Num a) = toString a"
| "jsnum_toString NaN = ''NaN''"

section \<open>Data model\<close>

record RawMaterial =
  m_name :: string
  m_quantity :: number
  m_unit :: string
  m_source :: string

record EnergyInput =
  e_type :: string
  e_amount :: number
  e_unit :: string

record Emission =
  em_type :: string
  em_amount :: number
  em_unit :: string

record WaterUsage =
  consumption :: number
  discharge :: number
  recycled :: number
  water_unit :: string

datatype TransportMode = truck | rail | ship | air

record Transport =
  mode :: TransportMode
  distance :: number
  loadWeight :: number

record WasteOutput =
  w_type :: string
  w_amount :: number
  w_unit :: string
  w_recycled :: number

record LCAInput =
  projectName :: string
  processType :: string
  rawMaterials :: "RawMaterial list"
  energy :: "EnergyInput list"
  emissions :: "Emission list"
  water :: WaterUsage
  transport :: "Transport list"
  waste :: "WasteOutput list option"
  companyName :: "string option"

record ValidationWarning =
  field :: string
  message :: string
  usedBenchmark :: bool
  benchmarkValue :: "number option"

section \<open>Factor tables and benchmarks\<close>

definition EMISSION_FACTORS_electricity :: number where
  "EMISSION_FACTORS_electricity = 0.436"

definition EMISSION_FACTORS :: "(string \<times> number) list" where
  "EMISSION_FACTORS =
     [(''electricity'', EMISSION_FACTORS_electricity),
      (''natural_gas'', 2.02),
      (''diesel'', 2.68),
      (''coal'', 2.42),
      (''renewable'', 0.012)]"

fun TRANSPORT_FACTORS :: "TransportMode \<Rightarrow> number" where
  "TRANSPORT_FACTORS truck = 0.0621"
| "TRANSPORT_FACTORS rail = 0.0224"
| "TRANSPORT_FACTORS ship = 0.0082"
| "TRANSPORT_FACTORS air = 0.6023"

definition GWP_FACTORS :: "(string \<times> number) list" where
  "GWP_FACTORS =
     [(''co2'', 1), (''ch4'', 29.8), (''n2o'', 273), (''sf6'', 25200),
      (''hfc'', 1530), (''pfc'', 9200)]"

definition WATER_FACTOR :: number where
  "WATER_FACTOR = 0.344"

definition electricity_per_tonne :: number where
  "electricity_per_tonne = 500"

definition water_per_tonne :: number where
  "water_per_tonne = 5"

definition transport_distance :: number where
  "transport_distance = 200"

definition waste_recycle_rate :: number where
  "waste_recycle_rate = 0.3"

definition Object_prototype_keys :: "string list" where
  \<comment> \<open>The property names an object literal answers to besides its own keys. The value
      found is a function, and for \<^verbatim>\<open>__proto__\<close> an object: truthy, and NaN as a
      number.\<close>
  "Object_prototype_keys =
     [''constructor'', ''hasOwnProperty'', ''isPrototypeOf'', ''propertyIsEnumerable'',
      ''toLocaleString'', ''toString'', ''valueOf'', ''__proto__'',
      ''__defineGetter__'', ''__defineSetter__'', ''__lookupGetter__'', ''__lookupSetter__'']"

section \<open>Input normalizer and benchmark imputer\<close>

definition materialSum :: "RawMaterial list \<Rightarrow> number" where
  \<comment> \<open>\<^verbatim>\<open>rawMaterials.reduce((sum, m) => sum + (m.unit === 'tonnes' ? m.quantity * 1000
      : m.quantity), 0)\<close>, which four functions of the source spell out.\<close>
  "materialSum ms =
     foldl (\<lambda>sum m. sum + (if m_unit m = ''tonnes'' then m_quantity m * 1000 else m_quantity m))
       0 ms"

definition energyMissing :: "LCAInput \<Rightarrow> bool" where
  "energyMissing input \<longleftrightarrow>
     length (energy input) = 0 \<or> list_all (\<lambda>e. e_amount e = 0) (energy input)"

definition transportMissing :: "LCAInput \<Rightarrow> bool" where
  "transportMissing input \<longleftrightarrow>
     length (transport input) = 0 \<or> list_all (\<lambda>t. distance t = 0) (transport input)"

definition emissionsMissing :: "LCAInput \<Rightarrow> bool" where
  "emissionsMissing input \<longleftrightarrow>
     length (emissions input) = 0 \<or> list_all (\<lambda>e. em_amount e = 0) (emissions input)"

definition projectNameMissing :: "LCAInput \<Rightarrow> bool" where
  "projectNameMissing input \<longleftrightarrow> projectName input = '''' \<or> trim (projectName input) = ''''"

definition benchmarkEnergyEntry :: "number \<Rightarrow> EnergyInput" where
  "benchmarkEnergyEntry benchmarkEnergy =
     \<lparr>e_type = ''electricity'', e_amount = benchmarkEnergy, e_unit = ''kWh''\<rparr>"

definition benchmarkTransportEntry :: "number \<Rightarrow> Transport" where
  "benchmarkTransportEntry totalMaterialKg =
     \<lparr>mode = truck, distance = transport_distance, loadWeight = totalMaterialKg\<rparr>"

definition energyWarning :: "number \<Rightarrow> ValidationWarning" where
  "energyWarning benchmarkEnergy =
     \<lparr>field = ''Energy'',
      message = ''No energy data provided. Using industry benchmark: ''
                  @ toFixed 0 benchmarkEnergy @ '' kWh'',
      usedBenchmark = True,
      benchmarkValue = Some benchmarkEnergy\<rparr>"

definition waterWarning :: "number \<Rightarrow> ValidationWarning" where
  "waterWarning benchmarkWater =
     \<lparr>field = ''Water'',
      message = ''No water consumption data. Using industry benchmark: ''
                  @ toFixed 1 benchmarkWater @ [CHR 0x20, CHR ''m'', CHR 0xC2, CHR 0xB3],
      usedBenchmark = True,
      benchmarkValue = Some benchmarkWater\<rparr>"

definition transportWarning :: ValidationWarning where
  "transportWarning =
     \<lparr>field = ''Transport'',
      message = ''No transport data. Using industry average: ''
                  @ toString transport_distance @ '' km by truck'',
      usedBenchmark = True,
      benchmarkValue = Some transport_distance\<rparr>"

definition emissionsWarning :: ValidationWarning where
  "emissionsWarning =
     \<lparr>field = ''Emissions'',
      message = ''No direct emissions specified. Only indirect emissions from energy will be calculated.'',
      usedBenchmark = False,
      benchmarkValue = None\<rparr>"

definition projectNameWarning :: ValidationWarning where
  "projectNameWarning =
     \<lparr>field = ''Project Name'',
      message = ''Project name was empty. Using default name.'',
      usedBenchmark = False,
      benchmarkValue = None\<rparr>"

definition validateAndApplyBenchmarks :: "LCAInput \<Rightarrow> LCAInput \<times> ValidationWarning list" where
  \<comment> \<open>The pair \<open>(validatedInput, warnings)\<close> is threaded through the five checks in the
      order of the source; every test reads the caller's \<open>input\<close>.\<close>
  "validateAndApplyBenchmarks input =
     (let validatedInput = input;
          warnings = [];
          totalMaterialKg = or_else (materialSum (rawMaterials input)) 1000;
          (validatedInput, warnings) =
            (if energyMissing input then
               (let benchmarkEnergy = (totalMaterialKg / 1000) * electricity_per_tonne in
                (validatedInput\<lparr>energy := [benchmarkEnergyEntry benchmarkEnergy]\<rparr>,
                 warnings @ [energyWarning benchmarkEnergy]))
             else (validatedInput, warnings));
          (validatedInput, warnings) =
            (if consumption (water input) = 0 then
               (let benchmarkWater = (totalMaterialKg / 1000) * water_per_tonne in
                (validatedInput\<lparr>water := (water input)\<lparr>consumption := benchmarkWater\<rparr>\<rparr>,
                 warnings @ [waterWarning benchmarkWater]))
             else (validatedInput, warnings));
          (validatedInput, warnings) =
            (if transportMissing input then
               (validatedInput\<lparr>transport := [benchmarkTransportEntry totalMaterialKg]\<rparr>,
                warnings @ [transportWarning])
             else (validatedInput, warnings));
          warnings =
            (if emissionsMissing input then warnings @ [emissionsWarning] else warnings);
          (validatedInput, warnings) =
            (if projectNameMissing input then
               (validatedInput\<lparr>projectName := ''Unnamed LCA Project''\<rparr>,
                warnings @ [projectNameWarning])
             else (validatedInput, warnings))
      in (validatedInput, warnings))"

subsection \<open>The normalizer on a store of objects\<close>

text \<open>
  The source works on objects: \<^verbatim>\<open>{ ...input }\<close> is a new object whose fields hold the
  same references as the caller's, and \<^verbatim>\<open>validatedInput.energy = [...]\<close>,
  \<^verbatim>\<open>warnings.push(...)\<close> write to objects. To say what the call does to the caller's
  objects, the function is given a second time, on a store: an object is an entry of
  the store, a reference is its index, \<^verbatim>\<open>new\<close> appends. The record of an input holds
  references to its arrays and to its water object; strings and numbers are values.
  A read through a reference that holds no object of the expected kind gives \<open>None\<close>
  (the input is not of the declared shape).
\<close>

type_synonym addr = nat

record LCAInputObj =
  o_projectName :: string
  o_processType :: string
  o_rawMaterials :: addr
  o_energy :: addr
  o_emissions :: addr
  o_water :: addr
  o_transport :: addr
  o_waste :: "addr option"
  o_companyName :: "string option"

datatype obj =
    InputObj LCAInputObj
  | MaterialArray "RawMaterial list"
  | EnergyArray "EnergyInput list"
  | EmissionArray "Emission list"
  | WaterObj WaterUsage
  | TransportArray "Transport list"
  | WasteArray "WasteOutput list"
  | WarningArray "ValidationWarning list"

type_synonym store = "obj list"

definition alloc :: "obj \<Rightarrow> store \<Rightarrow> addr \<times> store" where
  "alloc ob s = (length s, s @ [ob])"

definition deref :: "store \<Rightarrow> addr \<Rightarrow> obj option" where
  "deref s a = (if a < length s then Some (s ! a) else None)"

definition assign :: "addr \<Rightarrow> obj \<Rightarrow> store \<Rightarrow> store" where
  "assign a ob s = s[a := ob]"

definition get_input :: "store \<Rightarrow> addr \<Rightarrow> LCAInputObj option" where
  "get_input s a = (case deref s a of Some (InputObj x) \<Rightarrow> Some x | _ \<Rightarrow> None)"

definition get_materials :: "store \<Rightarrow> addr \<Rightarrow> RawMaterial list option" where
  "get_materials s a = (case deref s a of Some (MaterialArray x) \<Rightarrow> Some x | _ \<Rightarrow> None)"

definition get_energy :: "store \<Rightarrow> addr \<Rightarrow> EnergyInput list option" where
  "get_energy s a = (case deref s a of Some (EnergyArray x) \<Rightarrow> Some x | _ \<Rightarrow> None)"

definition get_emissions :: "store \<Rightarrow> addr \<Rightarrow> Emission list option" where
  "get_emissions s a = (case deref s a of Some (EmissionArray x) \<Rightarrow> Some x | _ \<Rightarrow> None)"

definition get_water :: "store \<Rightarrow> addr \<Rightarrow> WaterUsage option" where
  "get_water s a = (case deref s a of Some (WaterObj x) \<Rightarrow> Some x | _ \<Rightarrow> None)"

definition get_transport :: "store \<Rightarrow> addr \<Rightarrow> Transport list option" where
  "get_transport s a = (case deref s a of Some (TransportArray x) \<Rightarrow> Some x | _ \<Rightarrow> None)"

definition get_waste :: "store \<Rightarrow> addr option \<Rightarrow> WasteOutput list option option" where
  \<comment> \<open>The optional field: no reference reads as \<open>Some None\<close>.\<close>
  "get_waste s a =
     (case a of
        None \<Rightarrow> Some None
      | Some b \<Rightarrow> (case deref s b of Some (WasteArray x) \<Rightarrow> Some (Some x) | _ \<Rightarrow> None))"

definition get_warnings :: "store \<Rightarrow> addr \<Rightarrow> ValidationWarning list option" where
  "get_warnings s a = (case deref s a of Some (WarningArray x) \<Rightarrow> Some x | _ \<Rightarrow> None)"

definition read_LCAInput :: "store \<Rightarrow> addr \<Rightarrow> LCAInput option" where
  \<comment> \<open>The input record an object of the store stands for.\<close>
  "read_LCAInput s a = do {
     r \<leftarrow> get_input s a;
     ms \<leftarrow> get_materials s (o_rawMaterials r);
     en \<leftarrow> get_energy s (o_energy r);
     em \<leftarrow> get_emissions s (o_emissions r);
     wa \<leftarrow> get_water s (o_water r);
     tr \<leftarrow> get_transport s (o_transport r);
     ws \<leftarrow> get_waste s (o_waste r);
     Some \<lparr>projectName = o_projectName r, processType = o_processType r, rawMaterials = ms,
           energy = en, emissions = em, water = wa, transport = tr, waste = ws,
           companyName = o_companyName r\<rparr> }"

definition push :: "addr \<Rightarrow> ValidationWarning \<Rightarrow> store \<Rightarrow> store option" where
  \<comment> \<open>\<^verbatim>\<open>warnings.push(w)\<close>\<close>
  "push a w s = do { ws \<leftarrow> get_warnings s a; Some (assign a (WarningArray (ws @ [w])) s) }"

definition set_field :: "addr \<Rightarrow> (LCAInputObj \<Rightarrow> LCAInputObj) \<Rightarrow> store \<Rightarrow> store option" where
  \<comment> \<open>\<^verbatim>\<open>validatedInput.f = v\<close>\<close>
  "set_field a f s = do { r \<leftarrow> get_input s a; Some (assign a (InputObj (f r)) s) }"

definition check_energy :: "addr \<Rightarrow> addr \<Rightarrow> addr \<Rightarrow> number \<Rightarrow> store \<Rightarrow> store option" where
  "check_energy input validatedInput warnings totalMaterialKg s = do {
     i \<leftarrow> read_LCAInput s input;
     if energyMissing i then do {
       let benchmarkEnergy = (totalMaterialKg / 1000) * electricity_per_tonne;
       let (a, s) = alloc (EnergyArray [benchmarkEnergyEntry benchmarkEnergy]) s;
       s \<leftarrow> set_field validatedInput (\<lambda>r. r\<lparr>o_energy := a\<rparr>) s;
       push warnings (energyWarning benchmarkEnergy) s }
     else Some s }"

definition check_water :: "addr \<Rightarrow> addr \<Rightarrow> addr \<Rightarrow> number \<Rightarrow> store \<Rightarrow> store option" where
  "check_water input validatedInput warnings totalMaterialKg s = do {
     i \<leftarrow> read_LCAInput s input;
     if consumption (water i) = 0 then do {
       let benchmarkWater = (totalMaterialKg / 1000) * water_per_tonne;
       let (a, s) = alloc (WaterObj ((water i)\<lparr>consumption := benchmarkWater\<rparr>)) s;
       s \<leftarrow> set_field validatedInput (\<lambda>r. r\<lparr>o_water := a\<rparr>) s;
       push warnings (waterWarning benchmarkWater) s }
     else Some s }"

definition check_transport :: "addr \<Rightarrow> addr \<Rightarrow> addr \<Rightarrow> number \<Rightarrow> store \<Rightarrow> store option" where
  "check_transport input validatedInput warnings totalMaterialKg s = do {
     i \<leftarrow> read_LCAInput s input;
     if transportMissing i then do {
       let (a, s) = alloc (TransportArray [benchmarkTransportEntry totalMaterialKg]) s;
       s \<leftarrow> set_field validatedInput (\<lambda>r. r\<lparr>o_transport := a\<rparr>) s;
       push warnings transportWarning s }
     else Some s }"

definition check_emissions :: "addr \<Rightarrow> addr \<Rightarrow> store \<Rightarrow> store option" where
  "check_emissions input warnings s = do {
     i \<leftarrow> read_LCAInput s input;
     if emissionsMissing i then push warnings emissionsWarning s else Some s }"

definition check_projectName :: "addr \<Rightarrow> addr \<Rightarrow> addr \<Rightarrow> store \<Rightarrow> store option" where
  "check_projectName input validatedInput warnings s = do {
     i \<leftarrow> read_LCAInput s input;
     if projectNameMissing i then do {
       s \<leftarrow> set_field validatedInput (\<lambda>r. r\<lparr>o_projectName := ''Unnamed LCA Project''\<rparr>) s;
       push warnings projectNameWarning s }
     else Some s }"

definition validateAndApplyBenchmarks_store ::
  "store \<Rightarrow> addr \<Rightarrow> (store \<times> addr \<times> addr) option" where
  \<comment> \<open>The store after the call, with the references \<open>validatedInput\<close> and \<open>warnings\<close> it
      returns. Each check is one \<^verbatim>\<open>if\<close> statement of the source and reads the caller's
      object in the store as it is at that moment.\<close>
  "validateAndApplyBenchmarks_store s input = do {
     let (warnings, s) = alloc (WarningArray []) s;
     r \<leftarrow> get_input s input;
     let (validatedInput, s) = alloc (InputObj r) s;
     i \<leftarrow> read_LCAInput s input;
     let totalMaterialKg = or_else (materialSum (rawMaterials i)) 1000;
     s \<leftarrow> check_energy input validatedInput warnings totalMaterialKg s;
     s \<leftarrow> check_water input validatedInput warnings totalMaterialKg s;
     s \<leftarrow> check_transport input validatedInput warnings totalMaterialKg s;
     s \<leftarrow> check_emissions input warnings s;
     s \<leftarrow> check_projectName input validatedInput warnings s;
     Some (s, validatedInput, warnings) }"

definition store_inv ::
  "store \<Rightarrow> store \<Rightarrow> LCAInput \<Rightarrow> ValidationWarning list \<Rightarrow> bool" where
  \<comment> \<open>What holds between the checks: the caller's store \<open>s0\<close> is an untouched initial
      part of the store \<open>s\<close>, and the two objects made at the start stand for the pair
      \<open>(validatedInput, warnings)\<close>.\<close>
  "store_inv s0 s validatedInput warnings \<longleftrightarrow>
     take (length s0) s = s0 \<and> Suc (Suc (length s0)) \<le> length s
     \<and> get_warnings s (length s0) = Some warnings
     \<and> read_LCAInput s (Suc (length s0)) = Some validatedInput"

section \<open>Impact calculator\<close>

definition energy_factor :: "string \<Rightarrow> jsnum" where
  \<comment> \<open>The value of \<^verbatim>\<open>factor = EMISSION_FACTORS[e.type] || EMISSION_FACTORS.electricity\<close>
      as the product \<^verbatim>\<open>e.amount * factor\<close> reads it. The interface declares five type
      names; the CSV import casts any text to it. A name that is no key falls back to
      electricity, except the inherited names: what the lookup finds there is truthy, so
      there is no fallback, and its numeric value is NaN.\<close>
  "energy_factor t =
     (case map_of EMISSION_FACTORS t of
        Some factor \<Rightarrow> Num (or_else factor EMISSION_FACTORS_electricity)
      | None \<Rightarrow>
          if t \<in> set Object_prototype_keys then NaN
          else Num EMISSION_FACTORS_electricity)"

definition gwpFactor :: "string \<Rightarrow> number" where
  \<comment> \<open>\<^verbatim>\<open>Object.entries(GWP_FACTORS).find(([key]) => emissionType.includes(key))?.[1] || 1\<close>
      on \<^verbatim>\<open>emissionType = e.type.toLowerCase().replace(/[^a-z0-9]/g, '')\<close>. The search
      goes through the table's own entries only.\<close>
  "gwpFactor t =
     (let emissionType = filter is_lower_or_digit (toLowerCase t) in
      case find (\<lambda>(key, _). includes_str emissionType key) GWP_FACTORS of
        Some (_, factor) \<Rightarrow> or_else factor 1
      | None \<Rightarrow> 1)"

definition calculateGWP :: "LCAInput \<Rightarrow> jsnum" where
  "calculateGWP input =
     (let totalGWP = Num 0;
          totalGWP = foldl (\<lambda>totalGWP e.
                         jadd totalGWP (jmul (Num (e_amount e)) (energy_factor (e_type e))))
                       totalGWP (energy input);
          totalGWP = foldl (\<lambda>totalGWP e.
                         jadd totalGWP (Num (em_amount e * gwpFactor (em_type e))))
                       totalGWP (emissions input);
          totalGWP = foldl (\<lambda>totalGWP t.
                         jadd totalGWP
                           (Num ((distance t * loadWeight t * TRANSPORT_FACTORS (mode t)) / 1000)))
                       totalGWP (transport input);
          totalGWP = jadd totalGWP (Num (consumption (water input) * WATER_FACTOR))
      in jdiv (jround (jmul totalGWP (Num 100))) (Num 100))"

definition calculateEnergyIntensity :: "LCAInput \<Rightarrow> number" where
  "calculateEnergyIntensity input =
     (let totalEnergy =
            foldl (\<lambda>totalEnergy e.
                     if e_unit e = ''kWh'' then totalEnergy + e_amount e * 3.6
                     else if e_unit e = ''MJ'' then totalEnergy + e_amount e
                     else totalEnergy + e_amount e * 3.6)
              0 (energy input);
          totalMaterial =
            foldl (\<lambda>totalMaterial m.
                     if m_unit m = ''kg'' \<or> m_unit m = ''tonnes''
                     then totalMaterial
                            + (if m_unit m = ''tonnes'' then m_quantity m * 1000 else m_quantity m)
                     else totalMaterial)
              0 (rawMaterials input)
      in if totalMaterial > 0 then js_round ((totalEnergy / totalMaterial) * 100) / 100 else 0)"

definition calculateWaterFootprint :: "LCAInput \<Rightarrow> number" where
  "calculateWaterFootprint input =
     (let netConsumption = consumption (water input) - recycled (water input)
      in js_round (max 0 netConsumption * 100) / 100)"

section \<open>Circularity scorer\<close>

definition wasteRecycleSum :: "WasteOutput list \<Rightarrow> number" where
  \<comment> \<open>\<^verbatim>\<open>waste.reduce((sum, w) => sum + (w.recycled / Math.max(w.amount, 1)), 0)\<close>\<close>
  "wasteRecycleSum ws = foldl (\<lambda>sum w. sum + (w_recycled w / max (w_amount w) 1)) 0 ws"

definition hasWaste :: "LCAInput \<Rightarrow> bool" where
  \<comment> \<open>\<^verbatim>\<open>input.waste?.length\<close> as a condition: the list is there and not empty.\<close>
  "hasWaste input = (case waste input of None \<Rightarrow> False | Some ws \<Rightarrow> length ws \<noteq> 0)"

definition calculateMCI :: "LCAInput \<Rightarrow> number" where
  "calculateMCI input =
     (let totalMaterial = materialSum (rawMaterials input) in
      if totalMaterial = 0 then 0
      else
        (let waterRecycleRate =
               (if consumption (water input) > 0
                then recycled (water input) / consumption (water input) else 0);
             renewableEnergy = filter (\<lambda>e. e_type e = ''renewable'') (energy input);
             totalEnergy = foldl (\<lambda>sum e. sum + e_amount e) 0 (energy input);
             renewableShare =
               (if totalEnergy > 0
                then foldl (\<lambda>sum e. sum + e_amount e) 0 renewableEnergy / totalEnergy else 0);
             wasteRecycleRate =
               (if hasWaste input
                then wasteRecycleSum (the (waste input)) / of_nat (length (the (waste input)))
                else waste_recycle_rate);
             mci = (waterRecycleRate * 0.3 + renewableShare * 0.3 + wasteRecycleRate * 0.4) * 100
         in js_round (min 100 mci * 10) / 10))"

section \<open>Sustainability scorer\<close>

datatype Grade = Grade_A | Grade_B | Grade_C | Grade_D | Grade_F

record SustainabilityScore =
  overall :: jsnum
  gwpScore :: jsnum
  energyScore :: number
  waterScore :: number
  wasteScore :: number
  mciScore :: number
  grade :: Grade

definition wasteScore_unrounded :: "LCAInput \<Rightarrow> number" where
  \<comment> \<open>The local constant \<^verbatim>\<open>wasteScore\<close> of \<^verbatim>\<open>calculateSustainabilityScore\<close>, before
      the returned record rounds it.\<close>
  "wasteScore_unrounded input =
     (let wasteRecycleRate =
            (if hasWaste input
             then wasteRecycleSum (the (waste input)) / of_nat (length (the (waste input))) * 100
             else (recycled (water input) / max (consumption (water input)) 1) * 100)
      in min 100 wasteRecycleRate)"

definition calculateSustainabilityScore ::
  "LCAInput \<Rightarrow> jsnum \<Rightarrow> number \<Rightarrow> number \<Rightarrow> SustainabilityScore" where
  \<comment> \<open>\<open>gwp\<close> is what \<open>calculateGWP\<close> gave, so it may be NaN, and with it the GWP score and
      the overall score; the other two arguments and the other four scores come from
      rationals only.\<close>
  "calculateSustainabilityScore input gwp energyIntensity waterFootprint =
     (let totalMaterial = or_else (materialSum (rawMaterials input)) 1000;
          gwpPerTonne = jmul (jdiv gwp (Num totalMaterial)) (Num 1000);
          gwpScore = jmax (Num 0) (jmin (Num 100) (jsub (Num 100) (jdiv gwpPerTonne (Num 20))));
          energyScore = max 0 (min 100 (100 - (energyIntensity / 1)));
          waterPerTonne = (waterFootprint / totalMaterial) * 1000;
          waterScore = max 0 (min 100 (100 - (waterPerTonne / 0.1)));
          wasteScore = wasteScore_unrounded input;
          mciScore = calculateMCI input;
          overall = jround
                      (jadd (jadd (jadd (jadd (jmul gwpScore (Num 0.30))
                                              (Num (energyScore * 0.25)))
                                        (Num (waterScore * 0.15)))
                                  (Num (wasteScore * 0.15)))
                            (Num (mciScore * 0.15)));
          grade = (if jge overall (Num 80) then Grade_A
                   else if jge overall (Num 65) then Grade_B
                   else if jge overall (Num 50) then Grade_C
                   else if jge overall (Num 35) then Grade_D
                   else Grade_F)
      in \<lparr>overall = overall,
          gwpScore = jround gwpScore,
          energyScore = js_round energyScore,
          waterScore = js_round waterScore,
          wasteScore = js_round wasteScore,
          mciScore = js_round mciScore,
          grade = grade\<rparr>)"

section \<open>Hotspot analyzer\<close>

record Hotspot =
  area :: string
  impact :: jsnum
  contribution :: jsnum
  recommendation :: string

fun insert_hotspot :: "Hotspot \<Rightarrow> Hotspot list \<Rightarrow> Hotspot list" where
  \<comment> \<open>\<open>a\<close> goes behind \<open>b\<close> when \<^verbatim>\<open>b.contribution - a.contribution\<close> is positive; a
      difference that is 0 or NaN leaves the two as they are.\<close>
  "insert_hotspot a [] = [a]"
| "insert_hotspot a (b # bs) =
     (if jgt (jsub (contribution b) (contribution a)) (Num 0) then b # insert_hotspot a bs
      else a # b # bs)"

definition sort_hotspots :: "Hotspot list \<Rightarrow> Hotspot list" where
  \<comment> \<open>\<^verbatim>\<open>hotspots.sort((a, b) => b.contribution - a.contribution)\<close>, a stable sort: here the
      insertion sort that takes the entries from the last to the first.\<close>
  "sort_hotspots hs = foldr insert_hotspot hs []"

definition identifyHotspots :: "LCAInput \<Rightarrow> Hotspot list" where
  \<comment> \<open>The list \<open>hotspots\<close> grows by one \<^verbatim>\<open>push\<close> per category whose share is positive.\<close>
  "identifyHotspots input =
     (let hotspots = [];
          totalGWP = calculateGWP input
      in if totalGWP = Num 0 then hotspots
         else
           (let energyGWP =
                  foldl (\<lambda>energyGWP e.
                           jadd energyGWP (jmul (Num (e_amount e)) (energy_factor (e_type e))))
                    (Num 0) (energy input);
                hotspots =
                  (if jgt energyGWP (Num 0) then
                     (let contribution = jmul (jdiv energyGWP totalGWP) (Num 100) in
                      hotspots @
                        [\<lparr>area = ''Energy Consumption'',
                          impact = energyGWP,
                          contribution = jround contribution,
                          recommendation =
                            (if jgt contribution (Num 40)
                             then ''PRIORITY: Transition to renewable energy sources - potential 80%+ reduction''
                             else ''Optimize energy efficiency through process improvements'')\<rparr>])
                   else hotspots);
                transportGWP =
                  foldl (\<lambda>transportGWP t.
                           transportGWP
                             + (distance t * loadWeight t * TRANSPORT_FACTORS (mode t)) / 1000)
                    0 (transport input);
                hotspots =
                  (if transportGWP > 0 then
                     (let contribution = jmul (jdiv (Num transportGWP) totalGWP) (Num 100) in
                      hotspots @
                        [\<lparr>area = ''Transportation'',
                          impact = Num transportGWP,
                          contribution = jround contribution,
                          recommendation =
                            (if jgt contribution (Num 20)
                             then ''PRIORITY: Shift to rail/ship transport or optimize routes''
                             else ''Consider local sourcing to reduce transport distances'')\<rparr>])
                   else hotspots);
                directGWP = foldl (\<lambda>directGWP e. directGWP + em_amount e * gwpFactor (em_type e))
                              0 (emissions input);
                hotspots =
                  (if directGWP > 0 then
                     (let contribution = jmul (jdiv (Num directGWP) totalGWP) (Num 100) in
                      hotspots @
                        [\<lparr>area = ''Direct Process Emissions'',
                          impact = Num directGWP,
                          contribution = jround contribution,
                          recommendation =
                            (if jgt contribution (Num 30)
                             then ''PRIORITY: Implement emission capture or process optimization''
                             else ''Monitor and report emissions for continuous improvement'')\<rparr>])
                   else hotspots);
                waterGWP = consumption (water input) * WATER_FACTOR;
                hotspots =
                  (if waterGWP > 0 then
                     (let contribution = jmul (jdiv (Num waterGWP) totalGWP) (Num 100);
                          recycleRate = (recycled (water input) / consumption (water input)) * 100 in
                      hotspots @
                        [\<lparr>area = ''Water Usage'',
                          impact = Num waterGWP,
                          contribution = jround contribution,
                          recommendation =
                            (if recycleRate < 50
                             then ''Implement closed-loop water recycling systems''
                             else ''Good recycling rate - focus on water treatment efficiency'')\<rparr>])
                   else hotspots)
            in sort_hotspots hotspots))"

definition energyGWP :: "LCAInput \<Rightarrow> jsnum" where
  \<comment> \<open>The local sum \<open>energyGWP\<close> of \<open>identifyHotspots\<close>; likewise the next three.\<close>
  "energyGWP input =
     foldl (\<lambda>energyGWP e. jadd energyGWP (jmul (Num (e_amount e)) (energy_factor (e_type e))))
       (Num 0) (energy input)"

definition transportGWP :: "LCAInput \<Rightarrow> number" where
  "transportGWP input =
     foldl (\<lambda>transportGWP t.
              transportGWP + (distance t * loadWeight t * TRANSPORT_FACTORS (mode t)) / 1000)
       0 (transport input)"

definition directGWP :: "LCAInput \<Rightarrow> number" where
  "directGWP input =
     foldl (\<lambda>directGWP e. directGWP + em_amount e * gwpFactor (em_type e)) 0 (emissions input)"

definition waterGWP :: "LCAInput \<Rightarrow> number" where
  "waterGWP input = consumption (water input) * WATER_FACTOR"

definition share :: "number \<Rightarrow> number \<Rightarrow> number" where
  \<comment> \<open>The contribution of a category of value \<open>x\<close> to the list of hotspots when the total
      is the number \<open>totalGWP\<close>: 0 when the category is left out.\<close>
  "share totalGWP x = (if x > 0 then js_round ((x / totalGWP) * 100) else 0)"

fun jsum :: "jsnum list \<Rightarrow> jsnum" where
  \<comment> \<open>The sum of a list of values, NaN as soon as one of them is.\<close>
  "jsum [] = Num 0"
| "jsum (x # xs) = jadd x (jsum xs)"

section \<open>Goal alignment classifier\<close>

datatype Alignment = Positive | Neutral | Negative

record SDGAlignment =
  sdg :: nat
  title :: string
  alignment :: Alignment
  sdg_description :: string

definition calculateSDGAlignment :: "LCAInput \<Rightarrow> jsnum \<Rightarrow> SDGAlignment list" where
  "calculateSDGAlignment input gwp =
     (let alignments = [];
          renewableEnergy = filter (\<lambda>e. e_type e = ''renewable'') (energy input);
          totalEnergy = foldl (\<lambda>sum e. sum + e_amount e) 0 (energy input);
          renewableShare =
            (if totalEnergy > 0
             then (foldl (\<lambda>sum e. sum + e_amount e) 0 renewableEnergy / totalEnergy) * 100
             else 0);
          alignments = alignments @
            [\<lparr>sdg = 9,
              title = ''Industry, Innovation & Infrastructure'',
              alignment = (if renewableShare > 30 then Positive
                           else if renewableShare > 10 then Neutral else Negative),
              sdg_description =
                (if renewableShare > 30
                 then toFixed 0 renewableShare
                        @ ''% renewable energy supports sustainable industrialization''
                 else ''Opportunity to increase renewable energy adoption in operations'')\<rparr>];
          recycleRate =
            (if consumption (water input) > 0
             then (recycled (water input) / consumption (water input)) * 100
             else 0);
          alignments = alignments @
            [\<lparr>sdg = 12,
              title = ''Responsible Consumption & Production'',
              alignment = (if recycleRate > 50 then Positive
                           else if recycleRate > 25 then Neutral else Negative),
              sdg_description =
                (if recycleRate > 50
                 then ''Excellent '' @ toFixed 0 recycleRate
                        @ ''% water recycling rate supports circular economy''
                 else ''Implement circular economy practices for materials and water'')\<rparr>];
          totalMaterial = or_else (materialSum (rawMaterials input)) 1;
          gwpPerTonne = jmul (jdiv gwp (Num totalMaterial)) (Num 1000);
          alignments = alignments @
            [\<lparr>sdg = 13,
              title = ''Climate Action'',
              alignment = (if jlt gwpPerTonne (Num 500) then Positive
                           else if jlt gwpPerTonne (Num 1000) then Neutral else Negative),
              sdg_description =
                (if jlt gwpPerTonne (Num 500)
                 then ''Low carbon intensity aligns with Paris Agreement goals''
                 else ''Carbon intensity of '' @ jsnum_toFixed 0 gwpPerTonne
                        @ '' kg CO2e/tonne - reduction opportunities exist'')\<rparr>]
      in alignments)"

section \<open>Result assembler\<close>

datatype Status = Good | Warning | Critical

record ImpactResult =
  category :: string
  i_value :: jsnum
  i_unit :: string
  benchmark :: number
  status :: Status
  description :: string

record LCAResult =
  r_projectName :: string
  r_companyName :: "string option"
  timestamp :: string
  impacts :: "ImpactResult list"
  hotspots :: "Hotspot list"
  sdgAlignments :: "SDGAlignment list"
  recommendations :: "string list"
  circularEconomySuggestions :: "string list"
  overallScore :: jsnum
  sustainabilityScore :: SustainabilityScore
  validationWarnings :: "ValidationWarning list"
  aiRecommendations :: "string list option"
  isAIPowered :: bool

definition generateLCAResult :: "LCAInput \<Rightarrow> string list option \<Rightarrow> string \<Rightarrow> LCAResult" where
  \<comment> \<open>\<open>aiRecs\<close> is the optional parameter \<^verbatim>\<open>aiRecommendations\<close>. The third argument
      stands for the clock: the text of \<^verbatim>\<open>new Date().toISOString()\<close> at the call.\<close>
  "generateLCAResult input aiRecs now =
     (let (validatedInput, warnings) = validateAndApplyBenchmarks input;
          gwp = calculateGWP validatedInput;
          energyIntensity = calculateEnergyIntensity validatedInput;
          waterFootprint = calculateWaterFootprint validatedInput;
          hotspots = identifyHotspots validatedInput;
          sdgAlignments = calculateSDGAlignment validatedInput gwp;
          sustainabilityScore =
            calculateSustainabilityScore validatedInput gwp energyIntensity waterFootprint;
          impacts =
            [\<lparr>category = ''Global Warming Potential (GWP)'',
              i_value = gwp,
              i_unit = ''kg CO2e'',
              benchmark = 1000,
              status = (if jlt gwp (Num 500) then Good
                        else if jlt gwp (Num 1500) then Warning else Critical),
              description = ''Total greenhouse gas emissions (IPCC AR6 factors)''\<rparr>,
             \<lparr>category = ''Energy Intensity'',
              i_value = Num energyIntensity,
              i_unit = ''MJ/kg'',
              benchmark = 50,
              status = (if energyIntensity < 30 then Good
                        else if energyIntensity < 70 then Warning else Critical),
              description = ''Energy consumed per unit of material processed''\<rparr>,
             \<lparr>category = ''Water Footprint'',
              i_value = Num waterFootprint,
              i_unit = [CHR ''m'', CHR 0xC2, CHR 0xB3],
              benchmark = 100,
              status = (if waterFootprint < 50 then Good
                        else if waterFootprint < 150 then Warning else Critical),
              description = ''Net water consumption after recycling''\<rparr>];
          recommendations =
            [(case hotspots of
                h # _ \<Rightarrow>
                  (if jgt (contribution h) (Num 40)
                   then ''PRIORITY: Address '' @ area h @ '' - contributing ''
                          @ jsnum_toString (contribution h) @ ''% of total impact''
                   else ''No single hotspot dominates - focus on incremental improvements across all areas'')
              | [] \<Rightarrow> ''No single hotspot dominates - focus on incremental improvements across all areas''),
             (case find (\<lambda>s. alignment s = Negative) sdgAlignments of
                Some s \<Rightarrow> ''SDG Gap: '' @ title s @ '' needs attention''
              | None \<Rightarrow> ''Strong SDG alignment across all measured goals''),
             (if energyIntensity > 50
              then ''Consider energy audits to identify efficiency opportunities''
              else ''Energy efficiency is performing well''),
             (if mciScore sustainabilityScore < 30
              then ''Improve material circularity through recycling and renewable inputs''
              else ''Good circularity practices - continue optimization'')];
          circularEconomySuggestions =
            [''Implement industrial symbiosis - partner with nearby facilities for waste-to-resource exchanges'',
             ''Design for recyclability in product specifications'',
             ''Explore renewable energy PPAs (Power Purchase Agreements) for long-term decarbonization'',
             ''Consider carbon capture technologies for high-emission processes'',
             ''Optimize packaging and logistics for reduced material use'']
      in \<lparr>r_projectName = projectName validatedInput,
          r_companyName = companyName validatedInput,
          timestamp = now,
          impacts = impacts,
          hotspots = hotspots,
          sdgAlignments = sdgAlignments,
          recommendations = recommendations,
          circularEconomySuggestions = circularEconomySuggestions,
          overallScore = overall sustainabilityScore,
          sustainabilityScore = sustainabilityScore,
          validationWarnings = warnings,
          aiRecommendations = aiRecs,
          isAIPowered = (case aiRecs of None \<Rightarrow> False | Some rs \<Rightarrow> length rs > 0)\<rparr>)"

section \<open>Example inputs\<close>

definition empty_input :: LCAInput where
  "empty_input =
     \<lparr>projectName = '''', processType = '''', rawMaterials = [], energy = [], emissions = [],
      water = \<lparr>consumption = 0, discharge = 0, recycled = 0, water_unit = ''m3''\<rparr>,
      transport = [], waste = None, companyName = None\<rparr>"

definition copper_example :: LCAInput where
  \<comment> \<open>The sample data the input form loads.\<close>
  "copper_example =
     \<lparr>projectName = ''Copper Extraction Process'',
      processType = ''Hydrometallurgical Processing'',
      rawMaterials =
        [\<lparr>m_name = ''Copper Ore'', m_quantity = 10000, m_unit = ''kg'',
          m_source = ''Open Pit Mine''\<rparr>,
         \<lparr>m_name = ''Sulfuric Acid'', m_quantity = 500, m_unit = ''kg'',
          m_source = ''Chemical Supplier''\<rparr>,
         \<lparr>m_name = ''Water'', m_quantity = 5000, m_unit = ''L'',
          m_source = ''Municipal Supply''\<rparr>],
      energy =
        [\<lparr>e_type = ''electricity'', e_amount = 15000, e_unit = ''kWh''\<rparr>,
         \<lparr>e_type = ''diesel'', e_amount = 800, e_unit = ''L''\<rparr>,
         \<lparr>e_type = ''renewable'', e_amount = 3000, e_unit = ''kWh''\<rparr>],
      emissions =
        [\<lparr>em_type = ''CO2'', em_amount = 8500, em_unit = ''kg''\<rparr>,
         \<lparr>em_type = ''SO2'', em_amount = 120, em_unit = ''kg''\<rparr>,
         \<lparr>em_type = ''NOx'', em_amount = 45, em_unit = ''kg''\<rparr>],
      water = \<lparr>consumption = 5000, discharge = 3500, recycled = 2000,
               water_unit = [CHR ''m'', CHR 0xC2, CHR 0xB3]\<rparr>,
      transport =
        [\<lparr>mode = truck, distance = 150, loadWeight = 10000\<rparr>,
         \<lparr>mode = rail, distance = 500, loadWeight = 10000\<rparr>],
      waste = None, companyName = None\<rparr>"

definition rounding_example :: LCAInput where
  \<comment> \<open>Four categories whose shares of the total all end a little above one half.\<close>
  "rounding_example =
     \<lparr>projectName = ''Rounding'', processType = ''Test'', rawMaterials = [],
      energy = [\<lparr>e_type = ''electricity'', e_amount = 28.672, e_unit = ''kWh''\<rparr>],
      emissions = [\<lparr>em_type = ''CO2'', em_amount = 12.501, em_unit = ''kg''\<rparr>],
      water = \<lparr>consumption = 181.69, discharge = 0, recycled = 0, water_unit = ''m3''\<rparr>,
      transport = [\<lparr>mode = truck, distance = 201.3, loadWeight = 1000\<rparr>],
      waste = None, companyName = None\<rparr>"

definition small_water_example :: LCAInput where
  \<comment> \<open>Half a cubic metre of water, a quarter of a cubic metre recycled, no waste list.\<close>
  "small_water_example =
     \<lparr>projectName = ''Small'', processType = ''Test'', rawMaterials = [],
      energy = [], emissions = [],
      water = \<lparr>consumption = 0.5, discharge = 0, recycled = 0.25, water_unit = ''m3''\<rparr>,
      transport = [], waste = None, companyName = None\<rparr>"

definition tiny_water_example :: LCAInput where
  \<comment> \<open>Twenty litres of water and nothing else.\<close>
  "tiny_water_example =
     \<lparr>projectName = ''Tiny'', processType = ''Test'', rawMaterials = [],
      energy = [], emissions = [],
      water = \<lparr>consumption = 0.02, discharge = 0, recycled = 0, water_unit = ''m3''\<rparr>,
      transport = [], waste = None, companyName = None\<rparr>"

definition negative_energy_example :: LCAInput where
  \<comment> \<open>An energy amount below 0, which the data model rules out.\<close>
  "negative_energy_example =
     \<lparr>projectName = ''Negative'', processType = ''Test'', rawMaterials = [],
      energy = [\<lparr>e_type = ''electricity'', e_amount = - 100, e_unit = ''kWh''\<rparr>],
      emissions = [\<lparr>em_type = ''CO2'', em_amount = 100, em_unit = ''kg''\<rparr>],
      water = \<lparr>consumption = 0, discharge = 0, recycled = 0, water_unit = ''m3''\<rparr>,
      transport = [], waste = None, companyName = None\<rparr>"

definition waste_example :: LCAInput where
  "waste_example =
     copper_example\<lparr>waste :=
       Some [\<lparr>w_type = ''Tailings'', w_amount = 400, w_unit = ''kg'', w_recycled = 100\<rparr>,
             \<lparr>w_type = ''Slag'', w_amount = 0.5, w_unit = ''kg'', w_recycled = 0.25\<rparr>]\<rparr>"

definition empty_store :: store where
  \<comment> \<open>A store that holds \<open>empty_input\<close> at reference 5.\<close>
  "empty_store =
     [MaterialArray [], EnergyArray [], EmissionArray [],
      WaterObj \<lparr>consumption = 0, discharge = 0, recycled = 0, water_unit = ''m3''\<rparr>,
      TransportArray [],
      InputObj \<lparr>o_projectName = [], o_processType = [], o_rawMaterials = 0, o_energy = 1,
               o_emissions = 2, o_water = 3, o_transport = 4, o_waste = None,
               o_companyName = None\<rparr>]"

definition inherited_type_example :: LCAInput where
  \<comment> \<open>An imported row whose energy type is the text \<^verbatim>\<open>constructor\<close>; every number in it
      is positive.\<close>
  "inherited_type_example =
     \<lparr>projectName = ''Imported'', processType = ''Smelting'',
      rawMaterials =
        [\<lparr>m_name = ''Ore'', m_quantity = 1000, m_unit = ''kg'', m_source = ''Mine''\<rparr>],
      energy = [\<lparr>e_type = ''constructor'', e_amount = 100, e_unit = ''kWh''\<rparr>],
      emissions = [\<lparr>em_type = ''CO2'', em_amount = 50, em_unit = ''kg''\<rparr>],
      water = \<lparr>consumption = 10, discharge = 5, recycled = 2, water_unit = ''m3''\<rparr>,
      transport = [\<lparr>mode = truck, distance = 100, loadWeight = 1000\<rparr>],
      waste = None, companyName = None\<rparr>"

definition solar_type_example :: LCAInput where
  \<comment> \<open>The same row with the energy type \<^verbatim>\<open>solar\<close>, which is no key and no inherited
      name.\<close>
  "solar_type_example =
     inherited_type_example
       \<lparr>energy := [\<lparr>e_type = ''solar'', e_amount = 100, e_unit = ''kWh''\<rparr>]\<rparr>"

section \<open>The specification's wording, for comparison\<close>

definition nonneg_input :: "LCAInput \<Rightarrow> bool" where
  \<comment> \<open>The data model's constraint: every numeric field is at least 0.\<close>
  "nonneg_input input \<longleftrightarrow>
     list_all (\<lambda>m. 0 \<le> m_quantity m) (rawMaterials input)
     \<and> list_all (\<lambda>e. 0 \<le> e_amount e) (energy input)
     \<and> list_all (\<lambda>e. 0 \<le> em_amount e) (emissions input)
     \<and> 0 \<le> consumption (water input) \<and> 0 \<le> discharge (water input)
     \<and> 0 \<le> recycled (water input)
     \<and> list_all (\<lambda>t. 0 \<le> distance t \<and> 0 \<le> loadWeight t) (transport input)
     \<and> (case waste input of
          None \<Rightarrow> True
        | Some ws \<Rightarrow> list_all (\<lambda>w. 0 \<le> w_amount w \<and> 0 \<le> w_recycled w) ws)"

definition is_substring :: "string \<Rightarrow> string \<Rightarrow> bool" where
  \<comment> \<open>\<open>key\<close> occurs as a substring of \<open>s\<close>.\<close>
  "is_substring key s \<longleftrightarrow> (\<exists>pre post. s = pre @ key @ post)"

definition spec_energy_factor :: "string \<Rightarrow> number" where
  \<comment> \<open>The factor of an energy type, the electricity factor when the type is not one
      of the five.\<close>
  "spec_energy_factor t =
     (if t = ''electricity'' then 0.436
      else if t = ''natural_gas'' then 2.02
      else if t = ''diesel'' then 2.68
      else if t = ''coal'' then 2.42
      else if t = ''renewable'' then 0.012
      else 0.436)"

definition spec_gwp_multiplier :: "string \<Rightarrow> number" where
  \<comment> \<open>The multiplier of the first key, in the order co2, ch4, n2o, sf6, hfc, pfc, that
      occurs in the lowercased, alphanumeric-stripped type; 1 when none does.\<close>
  "spec_gwp_multiplier t =
     (let s = filter is_lower_or_digit (toLowerCase t) in
      if is_substring ''co2'' s then 1
      else if is_substring ''ch4'' s then 29.8
      else if is_substring ''n2o'' s then 273
      else if is_substring ''sf6'' s then 25200
      else if is_substring ''hfc'' s then 1530
      else if is_substring ''pfc'' s then 9200
      else 1)"

definition spec_round2 :: "number \<Rightarrow> number" where
  \<comment> \<open>Rounded to 2 decimal places.\<close>
  "spec_round2 x = of_int \<lfloor>x * 100 + 1 / 2\<rfloor> / 100"

definition spec_GWP :: "LCAInput \<Rightarrow> number" where
  "spec_GWP input =
     spec_round2
       ((\<Sum>e\<leftarrow>energy input. e_amount e * spec_energy_factor (e_type e))
        + (\<Sum>e\<leftarrow>emissions input. em_amount e * spec_gwp_multiplier (em_type e))
        + (\<Sum>t\<leftarrow>transport input. distance t * loadWeight t * TRANSPORT_FACTORS (mode t) / 1000)
        + consumption (water input) * 0.344)"

definition spec_wasteRecycleMean :: "WasteOutput list \<Rightarrow> number" where
  \<comment> \<open>The mean over the waste entries of \<open>recycled / max(amount, 1)\<close>.\<close>
  "spec_wasteRecycleMean ws =
     (\<Sum>w\<leftarrow>ws. w_recycled w / max (w_amount w) 1) / of_nat (length ws)"

definition spec_waterRecycleRate :: "LCAInput \<Rightarrow> number" where
  \<comment> \<open>\<open>recycled / consumption\<close>, 0 if consumption is 0.\<close>
  "spec_waterRecycleRate input =
     (if consumption (water input) = 0 then 0
      else recycled (water input) / consumption (water input))"

definition spec_wasteScore :: "LCAInput \<Rightarrow> number" where
  \<comment> \<open>The waste recycle rate times 100 if waste data is present, else the water recycle
      rate times 100, clamped to 100.\<close>
  "spec_wasteScore input =
     (if hasWaste input then min 100 (spec_wasteRecycleMean (the (waste input)) * 100)
      else min 100 (spec_waterRecycleRate input * 100))"


section \<open>Auxiliary notions\<close>

definition has_inherited_type :: "LCAInput \<Rightarrow> bool" where
  \<comment> \<open>Some energy entry has a type that names an inherited property.\<close>
  "has_inherited_type input =
     list_ex (\<lambda>e. e_type e \<in> set Object_prototype_keys) (energy input)"

definition numeric_factor :: "string \<Rightarrow> number" where
  \<comment> \<open>The energy factor of a type that names no inherited property.\<close>
  "numeric_factor t =
     (case map_of EMISSION_FACTORS t of
        Some factor \<Rightarrow> or_else factor EMISSION_FACTORS_electricity
      | None \<Rightarrow> EMISSION_FACTORS_electricity)"

definition energySum :: "LCAInput \<Rightarrow> number" where
  "energySum input = (\<Sum>e\<leftarrow>energy input. e_amount e * numeric_factor (e_type e))"


section \<open>Arithmetic and list facts\<close>

lemma floor_rat_div_numeral [simp]:
  "\<lfloor>(numeral a :: rat) / numeral b\<rfloor> = numeral a div numeral b"
  using floor_divide_of_int_eq [of "numeral a" "numeral b", where ?'a = rat] by simp

lemma foldl_add_sum_list:
  "foldl (\<lambda>acc x. acc + f x) a xs = (a::rat) + sum_list (map f xs)"
  by (induction xs arbitrary: a) simp_all

lemma materialSum_sum_list:
  "materialSum ms =
     (\<Sum>m\<leftarrow>ms. if m_unit m = ''tonnes'' then m_quantity m * 1000 else m_quantity m)"
  by (simp add: materialSum_def foldl_add_sum_list)

lemma guarded_divisors:
  \<comment> \<open>The divisors of the source that are not literals.\<close>
  "or_else x 1000 \<noteq> 0" "or_else x 1 \<noteq> 0" "max a 1 \<noteq> (0::rat)"
  "hasWaste input \<Longrightarrow> rat_of_nat (length (the (waste input))) \<noteq> 0"
  "waterGWP input > 0 \<Longrightarrow> consumption (water input) \<noteq> 0"
  by (auto simp: or_else_def max_def hasWaste_def waterGWP_def split: option.splits)

section \<open>What the normalizer returns\<close>

lemma validated_energy:
  "energy (fst (validateAndApplyBenchmarks input)) =
     (if energyMissing input
      then [benchmarkEnergyEntry
              ((or_else (materialSum (rawMaterials input)) 1000 / 1000) * electricity_per_tonne)]
      else energy input)"
  by (simp add: validateAndApplyBenchmarks_def Let_def)

lemma validated_water:
  "water (fst (validateAndApplyBenchmarks input)) =
     (if consumption (water input) = 0
      then (water input)\<lparr>consumption :=
             (or_else (materialSum (rawMaterials input)) 1000 / 1000) * water_per_tonne\<rparr>
      else water input)"
  by (simp add: validateAndApplyBenchmarks_def Let_def)

lemma validated_transport:
  "transport (fst (validateAndApplyBenchmarks input)) =
     (if transportMissing input
      then [benchmarkTransportEntry (or_else (materialSum (rawMaterials input)) 1000)]
      else transport input)"
  by (simp add: validateAndApplyBenchmarks_def Let_def)

lemma validated_projectName:
  "projectName (fst (validateAndApplyBenchmarks input)) =
     (if projectNameMissing input then ''Unnamed LCA Project'' else projectName input)"
  by (simp add: validateAndApplyBenchmarks_def Let_def)

lemma validated_frame:
  "rawMaterials (fst (validateAndApplyBenchmarks input)) = rawMaterials input"
  "emissions (fst (validateAndApplyBenchmarks input)) = emissions input"
  "waste (fst (validateAndApplyBenchmarks input)) = waste input"
  "processType (fst (validateAndApplyBenchmarks input)) = processType input"
  "companyName (fst (validateAndApplyBenchmarks input)) = companyName input"
  by (simp_all add: validateAndApplyBenchmarks_def Let_def)

lemma validated_warnings:
  "snd (validateAndApplyBenchmarks input) =
     (if energyMissing input
      then [energyWarning
              ((or_else (materialSum (rawMaterials input)) 1000 / 1000) * electricity_per_tonne)]
      else []) @
     (if consumption (water input) = 0
      then [waterWarning
              ((or_else (materialSum (rawMaterials input)) 1000 / 1000) * water_per_tonne)]
      else []) @
     (if transportMissing input then [transportWarning] else []) @
     (if emissionsMissing input then [emissionsWarning] else []) @
     (if projectNameMissing input then [projectNameWarning] else [])"
  by (simp add: validateAndApplyBenchmarks_def Let_def)

lemmas warning_defs =
  energyWarning_def waterWarning_def transportWarning_def emissionsWarning_def
  projectNameWarning_def

lemma empty_input_missing:
  "energyMissing empty_input" "consumption (water empty_input) = 0"
  "transportMissing empty_input" "emissionsMissing empty_input"
  "projectNameMissing empty_input" "materialSum (rawMaterials empty_input) = 0"
  by (simp_all add: empty_input_def energyMissing_def transportMissing_def
      emissionsMissing_def projectNameMissing_def materialSum_def)

lemma trim_copper: "trim ''Copper Extraction Process'' = ''Copper Extraction Process''"
  by (simp add: trim_def white_space_def starts_with_def)

text \<open>
  Claim C4. When the energy list is empty, or every energy amount is 0, the warnings hold
  exactly one entry for the field Energy, and it has the benchmark flag set; the energy
  list of the returned record is one electricity entry of amount
  \<open>(totalMaterialKg / 1000) * 500\<close>, where \<open>totalMaterialKg\<close> is the sum of the raw
  material masses (tonnes times 1000, anything else as it is), or 1000 when that sum is 0.
\<close>

theorem energy_benchmark_imputed:
  assumes "energy input = [] \<or> (\<forall>e\<in>set (energy input). e_amount e = 0)"
  shows "length (filter (\<lambda>w. field w = ''Energy'')
                  (snd (validateAndApplyBenchmarks input))) = 1
       \<and> length (filter (\<lambda>w. field w = ''Energy'' \<and> usedBenchmark w = True)
                  (snd (validateAndApplyBenchmarks input))) = 1
       \<and> energy (fst (validateAndApplyBenchmarks input)) =
           [\<lparr>e_type = ''electricity'',
             e_amount =
               ((let s = (\<Sum>m\<leftarrow>rawMaterials input.
                            if m_unit m = ''tonnes'' then m_quantity m * 1000 else m_quantity m)
                 in if s = 0 then 1000 else s) / 1000) * 500,
             e_unit = ''kWh''\<rparr>]"
proof -
  from assms have miss: "energyMissing input"
    by (auto simp: energyMissing_def list_all_iff)
  have "length (filter (\<lambda>w. field w = ''Energy'') (snd (validateAndApplyBenchmarks input))) = 1"
    unfolding validated_warnings using miss by (simp add: warning_defs)
  moreover have "length (filter (\<lambda>w. field w = ''Energy'' \<and> usedBenchmark w = True)
                   (snd (validateAndApplyBenchmarks input))) = 1"
    unfolding validated_warnings using miss by (simp add: warning_defs)
  moreover have "energy (fst (validateAndApplyBenchmarks input)) =
           [\<lparr>e_type = ''electricity'',
             e_amount =
               ((let s = (\<Sum>m\<leftarrow>rawMaterials input.
                            if m_unit m = ''tonnes'' then m_quantity m * 1000 else m_quantity m)
                 in if s = 0 then 1000 else s) / 1000) * 500,
             e_unit = ''kWh''\<rparr>]"
    using miss
    by (simp add: validated_energy or_else_def materialSum_sum_list electricity_per_tonne_def
        benchmarkEnergyEntry_def Let_def)
  ultimately show ?thesis by simp
qed

theorem energy_benchmark_imputed_witness:
  "energy empty_input = []
   \<and> length (filter (\<lambda>w. field w = ''Energy'') (snd (validateAndApplyBenchmarks empty_input))) = 1
   \<and> energy (fst (validateAndApplyBenchmarks empty_input)) =
       [\<lparr>e_type = ''electricity'', e_amount = 500, e_unit = ''kWh''\<rparr>]"
proof -
  have h: "energy empty_input = [] \<or> (\<forall>e\<in>set (energy empty_input). e_amount e = 0)"
    by (simp add: empty_input_def)
  show ?thesis
    using energy_benchmark_imputed [OF h] by (simp add: empty_input_def)
qed

text \<open>
  Claim C10. In every list of warnings the normalizer returns, a warning carries a
  benchmark value exactly when its benchmark flag is set, and the flag is set exactly for
  the warnings of the fields Energy, Water and Transport; the warnings for Emissions and
  Project Name have it unset.
\<close>

theorem warning_benchmark_flags:
  "\<forall>w\<in>set (snd (validateAndApplyBenchmarks input)).
     (benchmarkValue w \<noteq> None \<longleftrightarrow> usedBenchmark w = True)
     \<and> (usedBenchmark w = True \<longleftrightarrow> field w \<in> {''Energy'', ''Water'', ''Transport''})
     \<and> (field w \<in> {''Emissions'', ''Project Name''} \<longrightarrow> usedBenchmark w = False)"
proof -
  define ok where "ok w \<longleftrightarrow>
     (benchmarkValue w \<noteq> None \<longleftrightarrow> usedBenchmark w = True)
     \<and> (usedBenchmark w = True \<longleftrightarrow> field w \<in> {''Energy'', ''Water'', ''Transport''})
     \<and> (field w \<in> {''Emissions'', ''Project Name''} \<longrightarrow> usedBenchmark w = False)"
    for w :: ValidationWarning
  have "ok (energyWarning b)" "ok (waterWarning b)" "ok transportWarning"
    "ok emissionsWarning" "ok projectNameWarning" for b
    by (simp_all add: ok_def warning_defs)
  then have "\<forall>w\<in>set (snd (validateAndApplyBenchmarks input)). ok w"
    unfolding validated_warnings by auto
  then show ?thesis unfolding ok_def .
qed

theorem warning_benchmark_flags_witness:
  "energyWarning 500 \<in> set (snd (validateAndApplyBenchmarks empty_input))
   \<and> benchmarkValue (energyWarning 500) \<noteq> None
   \<and> usedBenchmark (energyWarning 500) = True
   \<and> emissionsWarning \<in> set (snd (validateAndApplyBenchmarks empty_input))
   \<and> benchmarkValue emissionsWarning = None
   \<and> usedBenchmark emissionsWarning = False"
proof -
  have mem: "energyWarning 500 \<in> set (snd (validateAndApplyBenchmarks empty_input))"
    "emissionsWarning \<in> set (snd (validateAndApplyBenchmarks empty_input))"
    by (simp_all add: validated_warnings empty_input_missing or_else_def
        electricity_per_tonne_def)
  from warning_benchmark_flags [of empty_input] mem
  have "benchmarkValue (energyWarning 500) \<noteq> None \<longleftrightarrow> usedBenchmark (energyWarning 500) = True"
    "usedBenchmark (energyWarning 500) = True
       \<longleftrightarrow> field (energyWarning 500) \<in> {''Energy'', ''Water'', ''Transport''}"
    "benchmarkValue emissionsWarning \<noteq> None \<longleftrightarrow> usedBenchmark emissionsWarning = True"
    "usedBenchmark emissionsWarning = True
       \<longleftrightarrow> field emissionsWarning \<in> {''Energy'', ''Water'', ''Transport''}"
    by blast+
  moreover have "field (energyWarning 500) = ''Energy''" "field emissionsWarning = ''Emissions''"
    by (simp_all add: warning_defs)
  ultimately show ?thesis using mem by simp
qed

text \<open>
  Claim C7. Normalizing an input that needs no substitution (the energy list is not
  empty and not all zero, water consumption is not zero, the transport list is not empty
  and not all of zero distance, the emissions are not empty and not all zero, the project
  name is not blank) gives no warning and the input itself.
\<close>

theorem normalization_idempotent:
  assumes "energy input \<noteq> []" and "\<exists>e\<in>set (energy input). e_amount e \<noteq> 0"
    and "consumption (water input) \<noteq> 0"
    and "transport input \<noteq> []" and "\<exists>t\<in>set (transport input). distance t \<noteq> 0"
    and "emissions input \<noteq> []" and "\<exists>e\<in>set (emissions input). em_amount e \<noteq> 0"
    and "trim (projectName input) \<noteq> ''''"
  shows "validateAndApplyBenchmarks input = (input, [])"
proof -
  have "\<not> energyMissing input" "\<not> transportMissing input" "\<not> emissionsMissing input"
    using assms
    by (auto simp: energyMissing_def transportMissing_def emissionsMissing_def list_all_iff)
  moreover have "\<not> projectNameMissing input"
    using assms(8) by (auto simp: projectNameMissing_def trim_def)
  ultimately show ?thesis
    using assms(3) by (simp add: validateAndApplyBenchmarks_def Let_def)
qed

theorem normalization_idempotent_witness:
  "validateAndApplyBenchmarks copper_example = (copper_example, [])"
proof -
  have "energy copper_example \<noteq> []" "\<exists>e\<in>set (energy copper_example). e_amount e \<noteq> 0"
    "consumption (water copper_example) \<noteq> 0"
    "transport copper_example \<noteq> []" "\<exists>t\<in>set (transport copper_example). distance t \<noteq> 0"
    "emissions copper_example \<noteq> []" "\<exists>e\<in>set (emissions copper_example). em_amount e \<noteq> 0"
    "trim (projectName copper_example) \<noteq> ''''"
    by (simp_all add: copper_example_def trim_copper)
  then show ?thesis by (rule normalization_idempotent)
qed

lemma default_name_not_blank: "\<not> projectNameMissing (i\<lparr>projectName := ''Unnamed LCA Project''\<rparr>)"
  by (simp add: projectNameMissing_def trim_def white_space_def starts_with_def)

lemma renormalize_output:
  \<comment> \<open>The output of the normalizer is a fixed point, up to the emissions notice, which no
      substitution removes.\<close>
  assumes "\<not> emissionsMissing input"
  shows "validateAndApplyBenchmarks (fst (validateAndApplyBenchmarks input)) =
           (fst (validateAndApplyBenchmarks input), [])"
proof -
  let ?v = "fst (validateAndApplyBenchmarks input)"
  have t: "or_else (materialSum (rawMaterials input)) 1000 \<noteq> 0"
    by (simp add: or_else_def)
  have "\<not> energyMissing ?v"
    using t by (auto simp: energyMissing_def validated_energy benchmarkEnergyEntry_def
        electricity_per_tonne_def)
  moreover have "consumption (water ?v) \<noteq> 0"
    using t by (simp add: validated_water water_per_tonne_def)
  moreover have "\<not> transportMissing ?v"
    by (auto simp: transportMissing_def validated_transport benchmarkTransportEntry_def
        transport_distance_def)
  moreover have "\<not> emissionsMissing ?v"
    using assms by (simp add: emissionsMissing_def validated_frame)
  moreover have "\<not> projectNameMissing ?v"
    using default_name_not_blank [of input]
    by (simp add: projectNameMissing_def validated_projectName)
  ultimately show ?thesis
    by (simp add: validateAndApplyBenchmarks_def [of ?v] Let_def)
qed

section \<open>The normalizer on the store\<close>

lemmas getters = get_input_def get_materials_def get_energy_def get_emissions_def
  get_water_def get_transport_def get_waste_def get_warnings_def

lemma getters_append:
  "get_input s a = Some x1 \<Longrightarrow> get_input (s @ ext) a = Some x1"
  "get_materials s a = Some x2 \<Longrightarrow> get_materials (s @ ext) a = Some x2"
  "get_energy s a = Some x3 \<Longrightarrow> get_energy (s @ ext) a = Some x3"
  "get_emissions s a = Some x4 \<Longrightarrow> get_emissions (s @ ext) a = Some x4"
  "get_water s a = Some x5 \<Longrightarrow> get_water (s @ ext) a = Some x5"
  "get_transport s a = Some x6 \<Longrightarrow> get_transport (s @ ext) a = Some x6"
  "get_waste s b = Some x7 \<Longrightarrow> get_waste (s @ ext) b = Some x7"
  "get_warnings s a = Some x8 \<Longrightarrow> get_warnings (s @ ext) a = Some x8"
  by (auto simp: getters deref_def nth_append split: option.splits obj.splits if_splits)

lemma read_LCAInput_append:
  "read_LCAInput s a = Some i \<Longrightarrow> read_LCAInput (s @ ext) a = Some i"
  by (auto simp: read_LCAInput_def getters_append split: Option.bind_splits)

lemma getters_assign_input:
  assumes "get_input s v = Some r"
  shows "get_input (assign v (InputObj r') s) a = (if a = v then Some r' else get_input s a)"
    "get_materials (assign v (InputObj r') s) a = get_materials s a"
    "get_energy (assign v (InputObj r') s) a = get_energy s a"
    "get_emissions (assign v (InputObj r') s) a = get_emissions s a"
    "get_water (assign v (InputObj r') s) a = get_water s a"
    "get_transport (assign v (InputObj r') s) a = get_transport s a"
    "get_waste (assign v (InputObj r') s) b = get_waste s b"
    "get_warnings (assign v (InputObj r') s) a = get_warnings s a"
  using assms
  by (auto simp: getters deref_def assign_def nth_list_update
      split: option.splits obj.splits if_splits)

lemma getters_assign_warnings:
  assumes "get_warnings s w = Some ws"
  shows "get_input (assign w (WarningArray ws') s) a = get_input s a"
    "get_materials (assign w (WarningArray ws') s) a = get_materials s a"
    "get_energy (assign w (WarningArray ws') s) a = get_energy s a"
    "get_emissions (assign w (WarningArray ws') s) a = get_emissions s a"
    "get_water (assign w (WarningArray ws') s) a = get_water s a"
    "get_transport (assign w (WarningArray ws') s) a = get_transport s a"
    "get_waste (assign w (WarningArray ws') s) b = get_waste s b"
    "get_warnings (assign w (WarningArray ws') s) a = (if a = w then Some ws' else get_warnings s a)"
  using assms
  by (auto simp: getters deref_def assign_def nth_list_update
      split: option.splits obj.splits if_splits)

lemma read_LCAInput_assign_warnings:
  "get_warnings s w = Some ws \<Longrightarrow>
   read_LCAInput (assign w (WarningArray ws') s) a = read_LCAInput s a"
  by (simp add: read_LCAInput_def getters_assign_warnings)

lemma take_assign: "n \<le> a \<Longrightarrow> take n (assign a ob s) = take n s"
  by (simp add: assign_def)

lemma length_assign: "length (assign a ob s) = length s"
  by (simp add: assign_def)

lemma push_inv:
  assumes "store_inv s0 s vi ws"
  shows "\<exists>s'. push (length s0) w s = Some s' \<and> store_inv s0 s' vi (ws @ [w])"
  using assms
  by (simp add: store_inv_def push_def take_assign length_assign
      read_LCAInput_assign_warnings getters_assign_warnings)

lemma store_inv_caller:
  assumes "store_inv s0 s vi ws" and "read_LCAInput s0 p = Some input"
  shows "read_LCAInput s p = Some input"
proof -
  from assms(1) have "s = s0 @ drop (length s0) s"
    by (metis append_take_drop_id store_inv_def)
  with read_LCAInput_append [OF assms(2)] show ?thesis by metis
qed

lemma read_LCAInput_SomeD:
  assumes "read_LCAInput s a = Some i"
  obtains r where "get_input s a = Some r"
    "get_materials s (o_rawMaterials r) = Some (rawMaterials i)"
    "get_energy s (o_energy r) = Some (energy i)"
    "get_emissions s (o_emissions r) = Some (emissions i)"
    "get_water s (o_water r) = Some (water i)"
    "get_transport s (o_transport r) = Some (transport i)"
    "get_waste s (o_waste r) = Some (waste i)"
    "projectName i = o_projectName r" "processType i = o_processType r"
    "companyName i = o_companyName r"
  using assms by (auto simp: read_LCAInput_def split: Option.bind_splits)

lemma get_new:
  "get_energy (s @ [EnergyArray en]) (length s) = Some en"
  "get_water (s @ [WaterObj wa]) (length s) = Some wa"
  "get_transport (s @ [TransportArray tr]) (length s) = Some tr"
  by (simp_all add: getters deref_def)

lemma set_energy_inv:
  assumes "store_inv s0 s vi ws"
  shows "\<exists>s'. set_field (Suc (length s0)) (\<lambda>r. r\<lparr>o_energy := length s\<rparr>) (s @ [EnergyArray en])
               = Some s'
             \<and> store_inv s0 s' (vi\<lparr>energy := en\<rparr>) ws"
proof -
  let ?s1 = "s @ [EnergyArray en]"
  from assms have rd: "read_LCAInput ?s1 (Suc (length s0)) = Some vi"
    and wr: "get_warnings ?s1 (length s0) = Some ws"
    and tk: "take (length s0) s = s0" and ln: "Suc (Suc (length s0)) \<le> length s"
    by (simp_all add: store_inv_def read_LCAInput_append getters_append)
  from rd obtain r where r: "get_input ?s1 (Suc (length s0)) = Some r"
    "get_materials ?s1 (o_rawMaterials r) = Some (rawMaterials vi)"
    "get_energy ?s1 (o_energy r) = Some (energy vi)"
    "get_emissions ?s1 (o_emissions r) = Some (emissions vi)"
    "get_water ?s1 (o_water r) = Some (water vi)"
    "get_transport ?s1 (o_transport r) = Some (transport vi)"
    "get_waste ?s1 (o_waste r) = Some (waste vi)"
    "projectName vi = o_projectName r" "processType vi = o_processType r"
    "companyName vi = o_companyName r"
    by (rule read_LCAInput_SomeD)
  show ?thesis
    using r wr tk ln
    by (simp add: set_field_def store_inv_def take_assign length_assign read_LCAInput_def
        getters_assign_input [OF r(1)] get_new)
qed

lemma set_water_inv:
  assumes "store_inv s0 s vi ws"
  shows "\<exists>s'. set_field (Suc (length s0)) (\<lambda>r. r\<lparr>o_water := length s\<rparr>) (s @ [WaterObj wa])
               = Some s'
             \<and> store_inv s0 s' (vi\<lparr>water := wa\<rparr>) ws"
proof -
  let ?s1 = "s @ [WaterObj wa]"
  from assms have rd: "read_LCAInput ?s1 (Suc (length s0)) = Some vi"
    and wr: "get_warnings ?s1 (length s0) = Some ws"
    and tk: "take (length s0) s = s0" and ln: "Suc (Suc (length s0)) \<le> length s"
    by (simp_all add: store_inv_def read_LCAInput_append getters_append)
  from rd obtain r where r: "get_input ?s1 (Suc (length s0)) = Some r"
    "get_materials ?s1 (o_rawMaterials r) = Some (rawMaterials vi)"
    "get_energy ?s1 (o_energy r) = Some (energy vi)"
    "get_emissions ?s1 (o_emissions r) = Some (emissions vi)"
    "get_water ?s1 (o_water r) = Some (water vi)"
    "get_transport ?s1 (o_transport r) = Some (transport vi)"
    "get_waste ?s1 (o_waste r) = Some (waste vi)"
    "projectName vi = o_projectName r" "processType vi = o_processType r"
    "companyName vi = o_companyName r"
    by (rule read_LCAInput_SomeD)
  show ?thesis
    using r wr tk ln
    by (simp add: set_field_def store_inv_def take_assign length_assign read_LCAInput_def
        getters_assign_input [OF r(1)] get_new)
qed

lemma set_transport_inv:
  assumes "store_inv s0 s vi ws"
  shows "\<exists>s'. set_field (Suc (length s0)) (\<lambda>r. r\<lparr>o_transport := length s\<rparr>)
                 (s @ [TransportArray tr]) = Some s'
             \<and> store_inv s0 s' (vi\<lparr>transport := tr\<rparr>) ws"
proof -
  let ?s1 = "s @ [TransportArray tr]"
  from assms have rd: "read_LCAInput ?s1 (Suc (length s0)) = Some vi"
    and wr: "get_warnings ?s1 (length s0) = Some ws"
    and tk: "take (length s0) s = s0" and ln: "Suc (Suc (length s0)) \<le> length s"
    by (simp_all add: store_inv_def read_LCAInput_append getters_append)
  from rd obtain r where r: "get_input ?s1 (Suc (length s0)) = Some r"
    "get_materials ?s1 (o_rawMaterials r) = Some (rawMaterials vi)"
    "get_energy ?s1 (o_energy r) = Some (energy vi)"
    "get_emissions ?s1 (o_emissions r) = Some (emissions vi)"
    "get_water ?s1 (o_water r) = Some (water vi)"
    "get_transport ?s1 (o_transport r) = Some (transport vi)"
    "get_waste ?s1 (o_waste r) = Some (waste vi)"
    "projectName vi = o_projectName r" "processType vi = o_processType r"
    "companyName vi = o_companyName r"
    by (rule read_LCAInput_SomeD)
  show ?thesis
    using r wr tk ln
    by (simp add: set_field_def store_inv_def take_assign length_assign read_LCAInput_def
        getters_assign_input [OF r(1)] get_new)
qed

lemma set_projectName_inv:
  assumes "store_inv s0 s vi ws"
  shows "\<exists>s'. set_field (Suc (length s0)) (\<lambda>r. r\<lparr>o_projectName := n\<rparr>) s = Some s'
             \<and> store_inv s0 s' (vi\<lparr>projectName := n\<rparr>) ws"
proof -
  from assms have rd: "read_LCAInput s (Suc (length s0)) = Some vi"
    and wr: "get_warnings s (length s0) = Some ws"
    and tk: "take (length s0) s = s0" and ln: "Suc (Suc (length s0)) \<le> length s"
    by (simp_all add: store_inv_def)
  from rd obtain r where r: "get_input s (Suc (length s0)) = Some r"
    "get_materials s (o_rawMaterials r) = Some (rawMaterials vi)"
    "get_energy s (o_energy r) = Some (energy vi)"
    "get_emissions s (o_emissions r) = Some (emissions vi)"
    "get_water s (o_water r) = Some (water vi)"
    "get_transport s (o_transport r) = Some (transport vi)"
    "get_waste s (o_waste r) = Some (waste vi)"
    "projectName vi = o_projectName r" "processType vi = o_processType r"
    "companyName vi = o_companyName r"
    by (rule read_LCAInput_SomeD)
  show ?thesis
    using r wr tk ln
    by (simp add: set_field_def store_inv_def take_assign length_assign read_LCAInput_def
        getters_assign_input [OF r(1)])
qed

lemma check_energy_inv:
  assumes inv: "store_inv s0 s vi ws" and caller: "read_LCAInput s0 p = Some input"
  shows "\<exists>s'. check_energy p (Suc (length s0)) (length s0) t s = Some s'
     \<and> store_inv s0 s'
         (if energyMissing input
          then vi\<lparr>energy := [benchmarkEnergyEntry ((t / 1000) * electricity_per_tonne)]\<rparr> else vi)
         (if energyMissing input
          then ws @ [energyWarning ((t / 1000) * electricity_per_tonne)] else ws)"
proof (cases "energyMissing input")
  case True
  from set_energy_inv [OF inv] obtain s1 where
    s1: "set_field (Suc (length s0)) (\<lambda>r. r\<lparr>o_energy := length s\<rparr>)
           (s @ [EnergyArray [benchmarkEnergyEntry ((t / 1000) * electricity_per_tonne)]]) = Some s1"
    "store_inv s0 s1 (vi\<lparr>energy := [benchmarkEnergyEntry ((t / 1000) * electricity_per_tonne)]\<rparr>) ws"
    by blast
  from push_inv [OF s1(2)] obtain s2 where
    "push (length s0) (energyWarning ((t / 1000) * electricity_per_tonne)) s1 = Some s2"
    "store_inv s0 s2 (vi\<lparr>energy := [benchmarkEnergyEntry ((t / 1000) * electricity_per_tonne)]\<rparr>)
       (ws @ [energyWarning ((t / 1000) * electricity_per_tonne)])"
    by blast
  with True s1(1) store_inv_caller [OF inv caller] show ?thesis
    by (simp add: check_energy_def alloc_def Let_def)
next
  case False
  with inv store_inv_caller [OF inv caller] show ?thesis
    by (simp add: check_energy_def)
qed

lemma check_water_inv:
  assumes inv: "store_inv s0 s vi ws" and caller: "read_LCAInput s0 p = Some input"
  shows "\<exists>s'. check_water p (Suc (length s0)) (length s0) t s = Some s'
     \<and> store_inv s0 s'
         (if consumption (water input) = 0
          then vi\<lparr>water := (water input)\<lparr>consumption := (t / 1000) * water_per_tonne\<rparr>\<rparr> else vi)
         (if consumption (water input) = 0
          then ws @ [waterWarning ((t / 1000) * water_per_tonne)] else ws)"
proof (cases "consumption (water input) = 0")
  case True
  from set_water_inv [OF inv] obtain s1 where
    s1: "set_field (Suc (length s0)) (\<lambda>r. r\<lparr>o_water := length s\<rparr>)
           (s @ [WaterObj ((water input)\<lparr>consumption := (t / 1000) * water_per_tonne\<rparr>)]) = Some s1"
    "store_inv s0 s1 (vi\<lparr>water := (water input)\<lparr>consumption := (t / 1000) * water_per_tonne\<rparr>\<rparr>) ws"
    by blast
  from push_inv [OF s1(2)] obtain s2 where
    "push (length s0) (waterWarning ((t / 1000) * water_per_tonne)) s1 = Some s2"
    "store_inv s0 s2 (vi\<lparr>water := (water input)\<lparr>consumption := (t / 1000) * water_per_tonne\<rparr>\<rparr>)
       (ws @ [waterWarning ((t / 1000) * water_per_tonne)])"
    by blast
  with True s1(1) store_inv_caller [OF inv caller] show ?thesis
    by (simp add: check_water_def alloc_def Let_def)
next
  case False
  with inv store_inv_caller [OF inv caller] show ?thesis
    by (simp add: check_water_def)
qed

lemma check_transport_inv:
  assumes inv: "store_inv s0 s vi ws" and caller: "read_LCAInput s0 p = Some input"
  shows "\<exists>s'. check_transport p (Suc (length s0)) (length s0) t s = Some s'
     \<and> store_inv s0 s'
         (if transportMissing input then vi\<lparr>transport := [benchmarkTransportEntry t]\<rparr> else vi)
         (if transportMissing input then ws @ [transportWarning] else ws)"
proof (cases "transportMissing input")
  case True
  from set_transport_inv [OF inv] obtain s1 where
    s1: "set_field (Suc (length s0)) (\<lambda>r. r\<lparr>o_transport := length s\<rparr>)
           (s @ [TransportArray [benchmarkTransportEntry t]]) = Some s1"
    "store_inv s0 s1 (vi\<lparr>transport := [benchmarkTransportEntry t]\<rparr>) ws"
    by blast
  from push_inv [OF s1(2)] obtain s2 where
    "push (length s0) transportWarning s1 = Some s2"
    "store_inv s0 s2 (vi\<lparr>transport := [benchmarkTransportEntry t]\<rparr>) (ws @ [transportWarning])"
    by blast
  with True s1(1) store_inv_caller [OF inv caller] show ?thesis
    by (simp add: check_transport_def alloc_def Let_def)
next
  case False
  with inv store_inv_caller [OF inv caller] show ?thesis
    by (simp add: check_transport_def)
qed

lemma check_emissions_inv:
  assumes inv: "store_inv s0 s vi ws" and caller: "read_LCAInput s0 p = Some input"
  shows "\<exists>s'. check_emissions p (length s0) s = Some s'
     \<and> store_inv s0 s' vi (if emissionsMissing input then ws @ [emissionsWarning] else ws)"
proof (cases "emissionsMissing input")
  case True
  from push_inv [OF inv] obtain s2 where
    "push (length s0) emissionsWarning s = Some s2"
    "store_inv s0 s2 vi (ws @ [emissionsWarning])"
    by blast
  with True store_inv_caller [OF inv caller] show ?thesis
    by (simp add: check_emissions_def)
next
  case False
  with inv store_inv_caller [OF inv caller] show ?thesis
    by (simp add: check_emissions_def)
qed

lemma check_projectName_inv:
  assumes inv: "store_inv s0 s vi ws" and caller: "read_LCAInput s0 p = Some input"
  shows "\<exists>s'. check_projectName p (Suc (length s0)) (length s0) s = Some s'
     \<and> store_inv s0 s'
         (if projectNameMissing input then vi\<lparr>projectName := ''Unnamed LCA Project''\<rparr> else vi)
         (if projectNameMissing input then ws @ [projectNameWarning] else ws)"
proof (cases "projectNameMissing input")
  case True
  from set_projectName_inv [OF inv] obtain s1 where
    s1: "set_field (Suc (length s0)) (\<lambda>r. r\<lparr>o_projectName := ''Unnamed LCA Project''\<rparr>) s = Some s1"
    "store_inv s0 s1 (vi\<lparr>projectName := ''Unnamed LCA Project''\<rparr>) ws"
    by blast
  from push_inv [OF s1(2)] obtain s2 where
    "push (length s0) projectNameWarning s1 = Some s2"
    "store_inv s0 s2 (vi\<lparr>projectName := ''Unnamed LCA Project''\<rparr>) (ws @ [projectNameWarning])"
    by blast
  with True s1(1) store_inv_caller [OF inv caller] show ?thesis
    by (simp add: check_projectName_def)
next
  case False
  with inv store_inv_caller [OF inv caller] show ?thesis
    by (simp add: check_projectName_def)
qed

lemma store_inv_init:
  assumes "read_LCAInput s0 p = Some input" and "get_input s0 p = Some r"
  shows "store_inv s0 (s0 @ [WarningArray [], InputObj r]) input []"
proof -
  have "get_input (s0 @ [WarningArray [], InputObj r]) (Suc (length s0)) = Some r"
    by (simp add: get_input_def deref_def nth_append)
  moreover from assms(1) have "read_LCAInput (s0 @ [WarningArray [], InputObj r]) p = Some input"
    by (rule read_LCAInput_append)
  moreover from assms(2) have "get_input (s0 @ [WarningArray [], InputObj r]) p = Some r"
    by (rule getters_append)
  ultimately have "read_LCAInput (s0 @ [WarningArray [], InputObj r]) (Suc (length s0)) = Some input"
    by (simp add: read_LCAInput_def)
  moreover have "get_warnings (s0 @ [WarningArray [], InputObj r]) (length s0) = Some []"
    by (simp add: get_warnings_def deref_def nth_append)
  ultimately show ?thesis by (simp add: store_inv_def)
qed

lemma validate_store_run:
  assumes caller: "read_LCAInput s0 p = Some input"
  shows "\<exists>s'. validateAndApplyBenchmarks_store s0 p = Some (s', Suc (length s0), length s0)
     \<and> store_inv s0 s' (fst (validateAndApplyBenchmarks input))
         (snd (validateAndApplyBenchmarks input))"
proof -
  from caller obtain r where r: "get_input s0 p = Some r"
    by (rule read_LCAInput_SomeD)
  let ?t = "or_else (materialSum (rawMaterials input)) 1000"
  let ?s1 = "s0 @ [WarningArray [], InputObj r]"
  have i0: "store_inv s0 ?s1 input []"
    using caller r by (rule store_inv_init)
  from check_energy_inv [OF i0 caller, of ?t] obtain s2 vi2 ws2 where
    s2: "check_energy p (Suc (length s0)) (length s0) ?t ?s1 = Some s2" "store_inv s0 s2 vi2 ws2"
    and v2: "vi2 = (if energyMissing input
               then input\<lparr>energy := [benchmarkEnergyEntry ((?t / 1000) * electricity_per_tonne)]\<rparr>
               else input)"
      "ws2 = (if energyMissing input
               then [] @ [energyWarning ((?t / 1000) * electricity_per_tonne)] else [])"
    by blast
  from check_water_inv [OF s2(2) caller, of ?t] obtain s3 vi3 ws3 where
    s3: "check_water p (Suc (length s0)) (length s0) ?t s2 = Some s3" "store_inv s0 s3 vi3 ws3"
    and v3: "vi3 = (if consumption (water input) = 0
          then vi2\<lparr>water := (water input)\<lparr>consumption := (?t / 1000) * water_per_tonne\<rparr>\<rparr> else vi2)"
      "ws3 = (if consumption (water input) = 0
          then ws2 @ [waterWarning ((?t / 1000) * water_per_tonne)] else ws2)"
    by blast
  from check_transport_inv [OF s3(2) caller, of ?t] obtain s4 vi4 ws4 where
    s4: "check_transport p (Suc (length s0)) (length s0) ?t s3 = Some s4" "store_inv s0 s4 vi4 ws4"
    and v4: "vi4 = (if transportMissing input then vi3\<lparr>transport := [benchmarkTransportEntry ?t]\<rparr> else vi3)"
      "ws4 = (if transportMissing input then ws3 @ [transportWarning] else ws3)"
    by blast
  from check_emissions_inv [OF s4(2) caller] obtain s5 ws5 where
    s5: "check_emissions p (length s0) s4 = Some s5" "store_inv s0 s5 vi4 ws5"
    and v5: "ws5 = (if emissionsMissing input then ws4 @ [emissionsWarning] else ws4)"
    by blast
  from check_projectName_inv [OF s5(2) caller] obtain s6 vi6 ws6 where
    s6: "check_projectName p (Suc (length s0)) (length s0) s5 = Some s6" "store_inv s0 s6 vi6 ws6"
    and v6: "vi6 = (if projectNameMissing input then vi4\<lparr>projectName := ''Unnamed LCA Project''\<rparr> else vi4)"
      "ws6 = (if projectNameMissing input then ws5 @ [projectNameWarning] else ws5)"
    by blast
  have pure: "validateAndApplyBenchmarks input = (vi6, ws6)"
    unfolding v6 v5 v4 v3 v2 by (simp add: validateAndApplyBenchmarks_def Let_def)
  have run: "validateAndApplyBenchmarks_store s0 p = Some (s6, Suc (length s0), length s0)"
    using r store_inv_caller [OF i0 caller] getters_append(1) [OF r, of "[WarningArray []]"]
      s2(1) s3(1) s4(1) s5(1) s6(1)
    by (simp add: validateAndApplyBenchmarks_store_def alloc_def Let_def)
  show ?thesis using run s6(2) pure by simp
qed

text \<open>
  Claim C8. The normalizer returns a new record and writes to no object of the caller:
  after the call every object that was in the store before is as it was, the caller's
  input reads as before, the returned reference is a new object that stands for the
  returned record, and the fields rawMaterials, emissions, waste, processType and
  companyName of that record are those of the input.
\<close>

theorem normalizer_leaves_input_untouched:
  assumes "read_LCAInput s p = Some input"
  shows "\<exists>s' validatedInput warnings.
           validateAndApplyBenchmarks_store s p = Some (s', validatedInput, warnings)
           \<and> take (length s) s' = s
           \<and> length s \<le> validatedInput \<and> length s \<le> warnings
           \<and> read_LCAInput s' p = Some input
           \<and> read_LCAInput s' validatedInput = Some (fst (validateAndApplyBenchmarks input))
           \<and> get_warnings s' warnings = Some (snd (validateAndApplyBenchmarks input))
           \<and> rawMaterials (fst (validateAndApplyBenchmarks input)) = rawMaterials input
           \<and> emissions (fst (validateAndApplyBenchmarks input)) = emissions input
           \<and> waste (fst (validateAndApplyBenchmarks input)) = waste input
           \<and> processType (fst (validateAndApplyBenchmarks input)) = processType input
           \<and> companyName (fst (validateAndApplyBenchmarks input)) = companyName input"
proof -
  from validate_store_run [OF assms] obtain s' where
    run: "validateAndApplyBenchmarks_store s p = Some (s', Suc (length s), length s)"
    and inv: "store_inv s s' (fst (validateAndApplyBenchmarks input))
                (snd (validateAndApplyBenchmarks input))"
    by blast
  from inv have "take (length s) s' = s"
    "read_LCAInput s' (Suc (length s)) = Some (fst (validateAndApplyBenchmarks input))"
    "get_warnings s' (length s) = Some (snd (validateAndApplyBenchmarks input))"
    by (simp_all add: store_inv_def)
  moreover from inv assms have "read_LCAInput s' p = Some input"
    by (rule store_inv_caller)
  ultimately show ?thesis
    using run by (simp add: validated_frame)
qed

lemma read_empty_store: "read_LCAInput empty_store 5 = Some empty_input"
  by (simp add: read_LCAInput_def getters deref_def empty_store_def empty_input_def)

theorem normalizer_leaves_input_untouched_witness:
  "read_LCAInput empty_store 5 = Some empty_input
   \<and> (\<exists>s' validatedInput warnings.
         validateAndApplyBenchmarks_store empty_store 5 = Some (s', validatedInput, warnings)
         \<and> take 6 s' = empty_store
         \<and> 6 \<le> validatedInput
         \<and> read_LCAInput s' 5 = Some empty_input
         \<and> read_LCAInput s' validatedInput = Some (fst (validateAndApplyBenchmarks empty_input)))"
proof -
  have len: "length empty_store = 6" by (simp add: empty_store_def)
  from normalizer_leaves_input_untouched [OF read_empty_store] len
  show ?thesis by (auto simp: read_empty_store)
qed



section \<open>Sums that may be NaN\<close>

lemma jadd_NaN [simp]: "jadd x NaN = NaN" "jadd NaN y = NaN"
  by (cases x) simp_all

lemma jmul_NaN [simp]: "jmul x NaN = NaN" "jmul NaN y = NaN"
  by (cases x) simp_all

lemma jdiv_NaN [simp]: "jdiv x NaN = NaN" "jdiv NaN y = NaN"
  by (cases x) simp_all

lemma jsub_NaN [simp]: "jsub x NaN = NaN" "jsub NaN y = NaN"
  by (cases x) simp_all

lemma jmax_NaN [simp]: "jmax x NaN = NaN" "jmax NaN y = NaN"
  by (cases x) simp_all

lemma jmin_NaN [simp]: "jmin x NaN = NaN" "jmin NaN y = NaN"
  by (cases x) simp_all

lemma jcompare_NaN [simp]:
  "jgt x NaN = False" "jgt NaN y = False" "jlt x NaN = False" "jlt NaN y = False"
  "jge x NaN = False" "jge NaN y = False"
  by (cases x; simp)+

lemma jadd_commute: "jadd x y = jadd y x"
  by (cases x; cases y) simp_all

lemma jadd_assoc: "jadd (jadd x y) z = jadd x (jadd y z)"
  by (cases x; cases y; cases z) simp_all

lemma jadd_left_commute: "jadd x (jadd y z) = jadd y (jadd x z)"
  by (cases x; cases y; cases z) simp_all

lemma foldl_jadd_Num:
  "foldl (\<lambda>acc x. jadd acc (Num (f x))) (Num a) xs = Num (a + sum_list (map f xs))"
  by (induction xs arbitrary: a) simp_all

lemma foldl_jadd_NaN: "foldl (\<lambda>acc x. jadd acc (g x)) NaN xs = NaN"
  by (induction xs) simp_all

lemma jsum_Num: "jsum (map Num cs) = Num (sum_list cs)"
  by (induction cs) simp_all

lemma jsum_append: "jsum (xs @ ys) = jadd (jsum xs) (jsum ys)"
proof (induction xs)
  case Nil
  show ?case by (cases "jsum ys") simp_all
next
  case (Cons x xs)
  then show ?case by (simp add: jadd_assoc)
qed

section \<open>The energy factor\<close>

lemma energy_factor_cases:
  "energy_factor t =
     (if t \<in> set Object_prototype_keys then NaN else Num (numeric_factor t))"
  by (simp add: energy_factor_def numeric_factor_def EMISSION_FACTORS_def
      Object_prototype_keys_def)

lemma numeric_factor_spec: "numeric_factor t = spec_energy_factor t"
  by (simp add: numeric_factor_def spec_energy_factor_def EMISSION_FACTORS_def
      EMISSION_FACTORS_electricity_def or_else_def)

lemma numeric_factor_pos: "0 < numeric_factor t"
  by (simp add: numeric_factor_spec spec_energy_factor_def)

lemma energy_fold:
  "foldl (\<lambda>acc e. jadd acc (jmul (Num (e_amount e)) (energy_factor (e_type e)))) (Num a) es =
     (if list_ex (\<lambda>e. e_type e \<in> set Object_prototype_keys) es then NaN
      else Num (a + (\<Sum>e\<leftarrow>es. e_amount e * numeric_factor (e_type e))))"
proof (induction es arbitrary: a)
  case Nil
  show ?case by simp
next
  case (Cons e es)
  show ?case
  proof (cases "e_type e \<in> set Object_prototype_keys")
    case True
    then have "energy_factor (e_type e) = NaN"
      by (simp add: energy_factor_cases)
    with True show ?thesis by (simp add: foldl_jadd_NaN)
  next
    case False
    then have "energy_factor (e_type e) = Num (numeric_factor (e_type e))"
      by (simp add: energy_factor_cases)
    with False show ?thesis by (simp add: Cons.IH add.assoc)
  qed
qed

lemma energyGWP_cases:
  "energyGWP input = (if has_inherited_type input then NaN else Num (energySum input))"
  by (simp add: energyGWP_def energy_fold has_inherited_type_def energySum_def)

lemma transportGWP_sum:
  "transportGWP input =
     (\<Sum>t\<leftarrow>transport input. distance t * loadWeight t * TRANSPORT_FACTORS (mode t) / 1000)"
  by (simp add: transportGWP_def foldl_add_sum_list)

lemma directGWP_sum:
  "directGWP input = (\<Sum>e\<leftarrow>emissions input. em_amount e * gwpFactor (em_type e))"
  by (simp add: directGWP_def foldl_add_sum_list)

lemma calculateGWP_inherited: "has_inherited_type input \<Longrightarrow> calculateGWP input = NaN"
  by (simp add: calculateGWP_def Let_def energy_fold has_inherited_type_def foldl_jadd_NaN)

lemma calculateGWP_categories:
  "\<not> has_inherited_type input \<Longrightarrow>
   calculateGWP input =
     Num (js_round ((energySum input + directGWP input + transportGWP input + waterGWP input)
                      * 100) / 100)"
  by (simp add: calculateGWP_def Let_def energy_fold has_inherited_type_def foldl_jadd_Num
      energySum_def directGWP_sum transportGWP_sum waterGWP_def)

lemma calculateGWP_NaN_iff: "calculateGWP input = NaN \<longleftrightarrow> has_inherited_type input"
proof (cases "has_inherited_type input")
  case True
  then show ?thesis by (simp add: calculateGWP_inherited)
next
  case False
  then show ?thesis by (simp add: calculateGWP_categories)
qed


section \<open>The impact calculator against the specification's wording\<close>

lemma starts_with_iff: "starts_with s key \<longleftrightarrow> (\<exists>post. s = key @ post)"
proof
  assume "starts_with s key"
  then have "s = key @ drop (length key) s"
    by (metis append_take_drop_id starts_with_def)
  then show "\<exists>post. s = key @ post" ..
next
  assume "\<exists>post. s = key @ post"
  then show "starts_with s key" by (auto simp: starts_with_def)
qed

lemma includes_str_iff: "includes_str s key \<longleftrightarrow> is_substring key s"
proof (induction s)
  case Nil
  show ?case by (auto simp: is_substring_def)
next
  case (Cons c cs)
  have "is_substring key (c # cs) \<longleftrightarrow> starts_with (c # cs) key \<or> is_substring key cs"
  proof
    assume "is_substring key (c # cs)"
    then obtain pre post where eq: "c # cs = pre @ key @ post"
      by (auto simp: is_substring_def)
    show "starts_with (c # cs) key \<or> is_substring key cs"
    proof (cases pre)
      case Nil
      with eq show ?thesis by (auto simp: starts_with_iff)
    next
      case (Cons d pre')
      with eq have "cs = pre' @ key @ post" by simp
      then show ?thesis by (auto simp: is_substring_def)
    qed
  next
    assume "starts_with (c # cs) key \<or> is_substring key cs"
    then show "is_substring key (c # cs)"
    proof
      assume "starts_with (c # cs) key"
      then obtain post where "c # cs = [] @ key @ post"
        by (auto simp: starts_with_iff)
      then show ?thesis unfolding is_substring_def by blast
    next
      assume "is_substring key cs"
      then obtain pre post where "cs = pre @ key @ post"
        by (auto simp: is_substring_def)
      then have "c # cs = (c # pre) @ key @ post" by simp
      then show ?thesis unfolding is_substring_def by blast
    qed
  qed
  with Cons.IH show ?case by simp
qed

lemma gwpFactor_spec: "gwpFactor t = spec_gwp_multiplier t"
  by (simp add: gwpFactor_def spec_gwp_multiplier_def GWP_FACTORS_def or_else_def
      includes_str_iff Let_def)

lemma gwpFactor_pos: "0 < gwpFactor t"
  by (simp add: gwpFactor_spec spec_gwp_multiplier_def Let_def)

lemma gwpFactor_examples:
  \<comment> \<open>Upper case, punctuation and blanks in a species label, the order of the keys, and
      the Kelvin sign, whose lower case is the letter k.\<close>
  "map gwpFactor
     [''CO2'', ''Methane (CH4)'', ''N2O'', ''SF-6'', ''HFC-134a'', ''PFC 14'', ''NOx'',
      ''C.H.4 / co2'', [CHR ''c'', CHR 0xE2, CHR 0x84, CHR 0xAA, CHR ''o'', CHR ''2'']] =
     [1, 29.8, 273, 25200, 1530, 9200, 1, 1, 1]"
  "filter is_lower_or_digit (toLowerCase ''Methane (CH4)'') = ''methanech4''"
  "filter is_lower_or_digit
     (toLowerCase [CHR ''c'', CHR 0xE2, CHR 0x84, CHR 0xAA, CHR ''o'', CHR ''2'']) = ''cko2''"
  by code_simp+

lemma energy_factor_examples:
  "map energy_factor [''electricity'', ''natural_gas'', ''diesel'', ''coal'', ''renewable''] =
     [Num 0.436, Num 2.02, Num 2.68, Num 2.42, Num 0.012]"
  "map energy_factor [''solar'', [], ''Electricity''] = [Num 0.436, Num 0.436, Num 0.436]"
  "map energy_factor [''constructor'', ''toString'', ''valueOf'', ''__proto__''] =
     [NaN, NaN, NaN, NaN]"
  by code_simp+

lemma calculateGWP_against_spec:
  \<comment> \<open>Away from the inherited names the code computes the sum the specification
      describes.\<close>
  "calculateGWP input = (if has_inherited_type input then NaN else Num (spec_GWP input))"
proof (cases "has_inherited_type input")
  case True
  then show ?thesis by (simp add: calculateGWP_inherited)
next
  case False
  then show ?thesis
    by (simp add: calculateGWP_categories spec_GWP_def spec_round2_def js_round_def
        energySum_def directGWP_sum transportGWP_sum waterGWP_def WATER_FACTOR_def
        numeric_factor_spec gwpFactor_spec)
qed

lemma copper_GWP: "calculateGWP copper_example = Num 19310.15"
  by code_simp

text \<open>
  Claim C2. For every input, calculateGWP returns, rounded to 2 decimal places, the sum of
  the energy amounts times their factors (the electricity factor for a type that is not
  recognized), the emission amounts times the multiplier of the first key in the order
  co2, ch4, n2o, sf6, hfc, pfc that occurs in the lowercased, alphanumeric-stripped type
  (1 when none occurs), the transport legs' distance times load weight times mode factor
  over 1000, and the water consumption times 0.344. The code departs from it: for the
  energy type \<^verbatim>\<open>constructor\<close>, which is not recognized, it does not fall back to the
  electricity factor and returns NaN, where the sum described is 103.25; for the
  unrecognized type \<^verbatim>\<open>solar\<close> it does fall back and returns 103.25.
\<close>

theorem calculateGWP_inherited_type:
  "calculateGWP inherited_type_example = NaN
   \<and> spec_GWP inherited_type_example = 103.25
   \<and> calculateGWP solar_type_example = Num 103.25
   \<and> spec_GWP solar_type_example = 103.25"
proof -
  have a: "calculateGWP inherited_type_example = NaN"
    and b: "calculateGWP solar_type_example = Num 103.25"
    and c: "\<not> has_inherited_type solar_type_example"
    by code_simp+
  from c have "calculateGWP solar_type_example = Num (spec_GWP solar_type_example)"
    by (simp add: calculateGWP_against_spec)
  with b have d: "spec_GWP solar_type_example = 103.25" by simp
  have "spec_GWP inherited_type_example = spec_GWP solar_type_example"
    by (simp add: spec_GWP_def inherited_type_example_def solar_type_example_def
        spec_energy_factor_def)
  with a b d show ?thesis by simp
qed


section \<open>Scores\<close>

lemma js_round_nonneg: "0 \<le> x \<Longrightarrow> 0 \<le> js_round x"
  by (simp add: js_round_def)

lemma js_round_le_int: "x \<le> of_int n \<Longrightarrow> js_round x \<le> of_int n"
proof -
  assume "x \<le> of_int n"
  then have "x + 1 / 2 < of_int n + 1" by simp
  then have "\<lfloor>x + 1 / 2\<rfloor> \<le> n" by (simp add: floor_le_iff)
  then show ?thesis by (simp add: js_round_def)
qed

lemma js_round_le_100: "x \<le> 100 \<Longrightarrow> js_round x \<le> 100"
  using js_round_le_int [of x 100] by simp

lemma js_round_le_1000: "x \<le> 1000 \<Longrightarrow> js_round x \<le> 1000"
  using js_round_le_int [of x 1000] by simp

lemma wasteRecycleSum_sum_list:
  "wasteRecycleSum ws = (\<Sum>w\<leftarrow>ws. w_recycled w / max (w_amount w) 1)"
  by (simp add: wasteRecycleSum_def foldl_add_sum_list)

lemma wasteRecycleSum_nonneg:
  assumes "list_all (\<lambda>w. 0 \<le> w_amount w \<and> 0 \<le> w_recycled w) ws"
  shows "0 \<le> wasteRecycleSum ws"
  unfolding wasteRecycleSum_sum_list
  using assms by (intro sum_list_nonneg) (auto simp: list_all_iff)

lemma amounts_nonneg:
  assumes "list_all (\<lambda>e. 0 \<le> e_amount e) es"
  shows "0 \<le> foldl (\<lambda>sum e. sum + e_amount e) 0 es"
    and "0 \<le> foldl (\<lambda>sum e. sum + e_amount e) 0 (filter P es)"
  unfolding foldl_add_sum_list
  using assms by (auto intro!: sum_list_nonneg simp: list_all_iff)

lemma wasteRate_nonneg:
  assumes "nonneg_input input" and "hasWaste input"
  shows "0 \<le> wasteRecycleSum (the (waste input)) / of_nat (length (the (waste input)))"
proof -
  from assms obtain ws where ws: "waste input = Some ws"
    by (auto simp: hasWaste_def split: option.splits)
  with assms(1) have "0 \<le> wasteRecycleSum ws"
    by (intro wasteRecycleSum_nonneg) (simp add: nonneg_input_def)
  with ws show ?thesis by simp
qed

lemma wasteScore_unrounded_bounds:
  assumes "nonneg_input input"
  shows "0 \<le> wasteScore_unrounded input" and "wasteScore_unrounded input \<le> 100"
proof -
  define rate where "rate =
    (if hasWaste input
     then wasteRecycleSum (the (waste input)) / of_nat (length (the (waste input))) * 100
     else (recycled (water input) / max (consumption (water input)) 1) * 100)"
  have eq: "wasteScore_unrounded input = min 100 rate"
    by (simp add: wasteScore_unrounded_def rate_def)
  have "0 \<le> recycled (water input) / max (consumption (water input)) 1"
    using assms by (simp add: nonneg_input_def)
  then have "0 \<le> (recycled (water input) / max (consumption (water input)) 1) * 100"
    by (rule mult_nonneg_nonneg) simp
  moreover have "0 \<le> wasteRecycleSum (the (waste input)) / of_nat (length (the (waste input))) * 100"
    if "hasWaste input"
    using wasteRate_nonneg [OF assms that] by (rule mult_nonneg_nonneg) simp
  ultimately have "0 \<le> rate" by (simp add: rate_def)
  then show "0 \<le> wasteScore_unrounded input" by (simp add: eq)
  show "wasteScore_unrounded input \<le> 100" by (simp add: eq)
qed

lemma calculateMCI_bounds:
  assumes "nonneg_input input"
  shows "0 \<le> calculateMCI input" and "calculateMCI input \<le> 100"
proof -
  define waterRecycleRate where "waterRecycleRate =
    (if consumption (water input) > 0
     then recycled (water input) / consumption (water input) else 0)"
  define totalEnergy where "totalEnergy = foldl (\<lambda>sum e. sum + e_amount e) 0 (energy input)"
  define renewableShare where "renewableShare =
    (if totalEnergy > 0
     then foldl (\<lambda>sum e. sum + e_amount e) 0
            (filter (\<lambda>e. e_type e = ''renewable'') (energy input)) / totalEnergy
     else 0)"
  define wasteRecycleRate where "wasteRecycleRate =
    (if hasWaste input
     then wasteRecycleSum (the (waste input)) / of_nat (length (the (waste input)))
     else waste_recycle_rate)"
  define mci where
    "mci = (waterRecycleRate * 0.3 + renewableShare * 0.3 + wasteRecycleRate * 0.4) * 100"
  have eq: "calculateMCI input =
      (if materialSum (rawMaterials input) = 0 then 0 else js_round (min 100 mci * 10) / 10)"
    by (simp add: calculateMCI_def Let_def mci_def wasteRecycleRate_def renewableShare_def
        totalEnergy_def waterRecycleRate_def)
  have w: "0 \<le> waterRecycleRate"
    using assms by (simp add: waterRecycleRate_def nonneg_input_def)
  have r: "0 \<le> renewableShare"
    using assms amounts_nonneg(2) [of "energy input" "\<lambda>e. e_type e = ''renewable''"]
    by (simp add: renewableShare_def nonneg_input_def)
  have wr: "0 \<le> wasteRecycleRate"
    using wasteRate_nonneg [OF assms] by (simp add: wasteRecycleRate_def waste_recycle_rate_def)
  from w r wr have "0 \<le> mci" by (simp add: mci_def)
  then have "0 \<le> min 100 mci * 10" by simp
  then have lo: "0 \<le> js_round (min 100 mci * 10)" by (rule js_round_nonneg)
  have "min 100 mci * 10 \<le> 1000" by simp
  then have hi: "js_round (min 100 mci * 10) \<le> 1000" by (rule js_round_le_1000)
  from lo show "0 \<le> calculateMCI input" by (simp add: eq)
  from hi show "calculateMCI input \<le> 100" by (simp add: eq)
qed

lemma score_bounds_number:
  \<comment> \<open>When the GWP handed to the scorer is a number, every score is between 0 and 100.\<close>
  assumes "nonneg_input input"
  shows "\<exists>ov g.
       overall (calculateSustainabilityScore input (Num gwp) energyIntensity waterFootprint)
         = Num ov
     \<and> 0 \<le> ov \<and> ov \<le> 100
     \<and> gwpScore (calculateSustainabilityScore input (Num gwp) energyIntensity waterFootprint)
         = Num g
     \<and> 0 \<le> g \<and> g \<le> 100
     \<and> 0 \<le> energyScore (calculateSustainabilityScore input (Num gwp) energyIntensity waterFootprint)
     \<and> energyScore (calculateSustainabilityScore input (Num gwp) energyIntensity waterFootprint) \<le> 100
     \<and> 0 \<le> waterScore (calculateSustainabilityScore input (Num gwp) energyIntensity waterFootprint)
     \<and> waterScore (calculateSustainabilityScore input (Num gwp) energyIntensity waterFootprint) \<le> 100
     \<and> 0 \<le> wasteScore (calculateSustainabilityScore input (Num gwp) energyIntensity waterFootprint)
     \<and> wasteScore (calculateSustainabilityScore input (Num gwp) energyIntensity waterFootprint) \<le> 100
     \<and> 0 \<le> mciScore (calculateSustainabilityScore input (Num gwp) energyIntensity waterFootprint)
     \<and> mciScore (calculateSustainabilityScore input (Num gwp) energyIntensity waterFootprint) \<le> 100
     \<and> 0 \<le> calculateMCI input \<and> calculateMCI input \<le> 100"
proof -
  define totalMaterial where "totalMaterial = or_else (materialSum (rawMaterials input)) 1000"
  define g where "g = max 0 (min 100 (100 - ((gwp / totalMaterial) * 1000 / 20)))"
  define e where "e = max 0 (min 100 (100 - (energyIntensity / 1)))"
  define w where "w = max 0 (min 100 (100 - ((waterFootprint / totalMaterial) * 1000 / 0.1)))"
  define ws where "ws = wasteScore_unrounded input"
  define m where "m = calculateMCI input"
  define ov where "ov = g * 0.30 + e * 0.25 + w * 0.15 + ws * 0.15 + m * 0.15"
  have g: "0 \<le> g" "g \<le> 100" and e: "0 \<le> e" "e \<le> 100" and w: "0 \<le> w" "w \<le> 100"
    by (simp_all add: g_def e_def w_def)
  have ws: "0 \<le> ws" "ws \<le> 100"
    using wasteScore_unrounded_bounds [OF assms] by (simp_all add: ws_def)
  have m: "0 \<le> m" "m \<le> 100"
    using calculateMCI_bounds [OF assms] by (simp_all add: m_def)
  from g e w ws m have ov: "0 \<le> ov" "ov \<le> 100"
    by (simp_all add: ov_def)
  have fields:
    "overall (calculateSustainabilityScore input (Num gwp) energyIntensity waterFootprint)
       = Num (js_round ov)"
    "gwpScore (calculateSustainabilityScore input (Num gwp) energyIntensity waterFootprint)
       = Num (js_round g)"
    "energyScore (calculateSustainabilityScore input (Num gwp) energyIntensity waterFootprint)
       = js_round e"
    "waterScore (calculateSustainabilityScore input (Num gwp) energyIntensity waterFootprint)
       = js_round w"
    "wasteScore (calculateSustainabilityScore input (Num gwp) energyIntensity waterFootprint)
       = js_round ws"
    "mciScore (calculateSustainabilityScore input (Num gwp) energyIntensity waterFootprint)
       = js_round m"
    by (simp_all add: calculateSustainabilityScore_def Let_def ov_def g_def e_def w_def ws_def
        m_def totalMaterial_def)
  show ?thesis
    unfolding fields
    using g e w ws m ov calculateMCI_bounds [OF assms]
    by (simp add: js_round_nonneg js_round_le_100)
qed

lemma score_of_NaN:
  \<comment> \<open>The clamp \<^verbatim>\<open>Math.max(0, Math.min(100, _))\<close> lets NaN through.\<close>
  "gwpScore (calculateSustainabilityScore input NaN energyIntensity waterFootprint) = NaN"
  "overall (calculateSustainabilityScore input NaN energyIntensity waterFootprint) = NaN"
  "grade (calculateSustainabilityScore input NaN energyIntensity waterFootprint) = Grade_F"
  by (simp_all add: calculateSustainabilityScore_def Let_def)

lemma copper_nonneg: "nonneg_input copper_example"
  by (simp add: nonneg_input_def copper_example_def)

lemma copper_score:
  "calculateSustainabilityScore copper_example (calculateGWP copper_example)
       (calculateEnergyIntensity copper_example) (calculateWaterFootprint copper_example) =
     \<lparr>overall = Num 45, gwpScore = Num 38, energyScore = 94, waterScore = 0, wasteScore = 40,
      mciScore = 29, grade = Grade_D\<rparr>"
  by code_simp

lemma copper_MCI: "calculateMCI copper_example = 28.8"
  by code_simp

text \<open>
  Claim C5. For every input whose numeric fields are all at least 0, each component of
  the score record that calculateSustainabilityScore returns (overall, gwpScore,
  energyScore, waterScore, wasteScore, mciScore) is between 0 and 100, and so is the value
  of calculateMCI. The code departs from it: for an input whose numeric fields are all
  positive and whose energy type is the text \<^verbatim>\<open>constructor\<close>, the total GWP is NaN, and
  the GWP score and the overall score, in the scorer and in the assembled result, are NaN,
  which is not at least 0.
\<close>

theorem score_not_a_number:
  "nonneg_input inherited_type_example
   \<and> calculateGWP inherited_type_example = NaN
   \<and> gwpScore (calculateSustainabilityScore inherited_type_example
        (calculateGWP inherited_type_example) (calculateEnergyIntensity inherited_type_example)
        (calculateWaterFootprint inherited_type_example)) = NaN
   \<and> overall (calculateSustainabilityScore inherited_type_example
        (calculateGWP inherited_type_example) (calculateEnergyIntensity inherited_type_example)
        (calculateWaterFootprint inherited_type_example)) = NaN
   \<and> gwpScore (sustainabilityScore (generateLCAResult inherited_type_example None [])) = NaN
   \<and> overall (sustainabilityScore (generateLCAResult inherited_type_example None [])) = NaN
   \<and> overallScore (generateLCAResult inherited_type_example None []) = NaN
   \<and> \<not> jge (gwpScore (sustainabilityScore (generateLCAResult inherited_type_example None [])))
           (Num 0)
   \<and> \<not> jge (overall (sustainabilityScore (generateLCAResult inherited_type_example None [])))
           (Num 0)"
  by code_simp

lemma wasteScore_agrees:
  \<comment> \<open>Where the code's waste score is the one described: with a waste list, and without
      one from a water consumption of 1 upwards.\<close>
  assumes "hasWaste input \<or> 1 \<le> consumption (water input)"
  shows "wasteScore_unrounded input = spec_wasteScore input"
    and "wasteScore (calculateSustainabilityScore input gwp energyIntensity waterFootprint) =
           js_round (spec_wasteScore input)"
proof -
  have "max (consumption (water input)) 1 = consumption (water input)"
    "consumption (water input) \<noteq> 0" if "1 \<le> consumption (water input)"
    using that by simp_all
  with assms show a: "wasteScore_unrounded input = spec_wasteScore input"
    by (auto simp: wasteScore_unrounded_def spec_wasteScore_def spec_wasteRecycleMean_def
        spec_waterRecycleRate_def wasteRecycleSum_sum_list Let_def)
  then show "wasteScore (calculateSustainabilityScore input gwp energyIntensity waterFootprint) =
           js_round (spec_wasteScore input)"
    by (simp add: calculateSustainabilityScore_def Let_def)
qed

lemma result_wasteScore:
  "wasteScore (sustainabilityScore (generateLCAResult input aiRecs now)) =
     js_round (wasteScore_unrounded (fst (validateAndApplyBenchmarks input)))"
  by (simp add: generateLCAResult_def calculateSustainabilityScore_def Let_def
      case_prod_unfold)

lemma wasteScore_unrounded_cong:
  "water v = water input \<Longrightarrow> waste v = waste input \<Longrightarrow>
   wasteScore_unrounded v = wasteScore_unrounded input"
  by (simp add: wasteScore_unrounded_def hasWaste_def)

text \<open>
  Claim C3. In calculateSustainabilityScore the waste score is, for an input with a
  non-empty waste list, the mean over the waste entries of \<open>recycled / max(amount, 1)\<close>,
  times 100, clamped to 100; for an input with no waste entries it is the water recycle
  rate, \<open>recycled / consumption\<close> and 0 when the consumption is 0, times 100, clamped to
  100. The code departs from it: with no waste list, half a cubic metre of water consumed
  and a quarter recycled, the water recycle rate is one half, and the code gives the
  waste score 25, not 50.
\<close>

theorem wasteScore_small_consumption:
  "\<not> hasWaste small_water_example
   \<and> spec_waterRecycleRate small_water_example = 1 / 2
   \<and> spec_wasteScore small_water_example = 50
   \<and> wasteScore_unrounded small_water_example = 25
   \<and> wasteScore (calculateSustainabilityScore small_water_example
        (calculateGWP small_water_example) (calculateEnergyIntensity small_water_example)
        (calculateWaterFootprint small_water_example)) = 25
   \<and> wasteScore (sustainabilityScore (generateLCAResult small_water_example None [])) = 25"
proof -
  have a: "\<not> hasWaste small_water_example"
    and b: "spec_waterRecycleRate small_water_example = 1 / 2"
    and c: "spec_wasteScore small_water_example = 50"
    and d: "wasteScore_unrounded small_water_example = 25"
    and e: "wasteScore (calculateSustainabilityScore small_water_example
        (calculateGWP small_water_example) (calculateEnergyIntensity small_water_example)
        (calculateWaterFootprint small_water_example)) = 25"
    by code_simp+
  have "water (fst (validateAndApplyBenchmarks small_water_example)) = water small_water_example"
    by (simp add: validated_water small_water_example_def)
  then have "wasteScore_unrounded (fst (validateAndApplyBenchmarks small_water_example)) = 25"
    using wasteScore_unrounded_cong [of "fst (validateAndApplyBenchmarks small_water_example)"
        small_water_example] d
    by (simp add: validated_frame)
  then have f: "wasteScore (sustainabilityScore (generateLCAResult small_water_example None [])) = 25"
    by (simp add: result_wasteScore js_round_def)
  from a b c d e f show ?thesis by (simp only: simp_thms)
qed

section \<open>The assembled result\<close>

text \<open>
  Claim C9. For every input and every optional list of recommendations, the field
  overallScore of the result equals the field overall of its sustainabilityScore.
\<close>

theorem overallScore_agrees:
  "overallScore (generateLCAResult input aiRecs now) =
     overall (sustainabilityScore (generateLCAResult input aiRecs now))"
  by (simp add: generateLCAResult_def Let_def split: prod.split)

lemma copper_result_score:
  "overall (sustainabilityScore (generateLCAResult copper_example None ''2026-01-01T00:00:00.000Z'')) = Num 45"
  by code_simp

theorem overallScore_agrees_witness:
  "overallScore (generateLCAResult copper_example None ''2026-01-01T00:00:00.000Z'') = Num 45"
  using overallScore_agrees [of copper_example None "''2026-01-01T00:00:00.000Z''"]
    copper_result_score
  by simp


section \<open>Hotspots\<close>

lemma js_round_near: "\<bar>js_round x - x\<bar> \<le> 1 / 2"
proof -
  have "of_int \<lfloor>x + 1 / 2\<rfloor> \<le> x + 1 / 2" "x + 1 / 2 < of_int \<lfloor>x + 1 / 2\<rfloor> + 1"
    by linarith+
  then show ?thesis unfolding js_round_def by linarith
qed

lemma jadd_zero [simp]: "jadd x (Num 0) = x" "jadd (Num 0) x = x"
  by (cases x; simp)+

lemma jsum_insert_hotspot:
  "jsum (map f (insert_hotspot a hs)) = jadd (f a) (jsum (map f hs))"
  by (induction hs) (simp_all add: jadd_left_commute)

lemma jsum_sort_hotspots: "jsum (map f (sort_hotspots hs)) = jsum (map f hs)"
  unfolding sort_hotspots_def by (induction hs) (simp_all add: jsum_insert_hotspot)

lemma if_snoc: "(if c then xs @ [a] else xs) = xs @ (if c then [a] else [])"
  by simp

lemma jsum_map_if_single:
  "jsum (map f (if c then [a] else [])) = (if c then f a else Num 0)"
  by simp

lemma if_Num: "(if c then Num a else Num b) = Num (if c then a else b)"
  by simp

lemma identifyHotspots_contributions:
  assumes "\<not> has_inherited_type input" and "calculateGWP input = Num T" and "T \<noteq> 0"
  shows "jsum (map contribution (identifyHotspots input)) =
     Num (share T (energySum input) + share T (transportGWP input)
          + share T (directGWP input) + share T (waterGWP input))"
proof -
  have e: "foldl (\<lambda>energyGWP e. jadd energyGWP (jmul (Num (e_amount e)) (energy_factor (e_type e))))
             (Num 0) (energy input) = Num (energySum input)"
    using assms(1) energyGWP_cases [of input] by (simp add: energyGWP_def)
  show ?thesis
    unfolding identifyHotspots_def Let_def e assms(2) share_def transportGWP_def directGWP_def
      waterGWP_def
    using assms(3)
    by (simp add: jsum_sort_hotspots if_snoc jsum_append jsum_map_if_single
          split del: if_split,
        simp add: if_Num split del: if_split cong: if_cong)
qed

lemma share_near: "\<bar>share t x - max 0 x / t * 100\<bar> \<le> 1 / 2"
proof (cases "x > 0")
  case True
  then have "share t x = js_round (x / t * 100)" "max 0 x = x"
    by (simp_all add: share_def)
  then show ?thesis using js_round_near [of "x / t * 100"] by (simp only:)
next
  case False
  then have "share t x = 0" "max 0 x = 0"
    by (simp_all add: share_def)
  then show ?thesis by simp
qed

lemma TRANSPORT_FACTORS_pos: "0 < TRANSPORT_FACTORS m"
  by (cases m) simp_all

lemma categories_nonneg:
  assumes "nonneg_input input"
  shows "0 \<le> energySum input" "0 \<le> transportGWP input" "0 \<le> directGWP input"
    "0 \<le> waterGWP input"
proof -
  have "0 \<le> e_amount e * numeric_factor (e_type e)" if "e \<in> set (energy input)" for e
    using that assms less_imp_le [OF numeric_factor_pos]
    by (intro mult_nonneg_nonneg) (auto simp: nonneg_input_def list_all_iff)
  then show "0 \<le> energySum input"
    unfolding energySum_def by (auto intro!: sum_list_nonneg)
  have "0 \<le> distance t * loadWeight t * TRANSPORT_FACTORS (mode t) / 1000"
    if "t \<in> set (transport input)" for t
    using that assms less_imp_le [OF TRANSPORT_FACTORS_pos]
    by (intro divide_nonneg_nonneg mult_nonneg_nonneg)
      (auto simp: nonneg_input_def list_all_iff)
  then show "0 \<le> transportGWP input"
    unfolding transportGWP_sum by (auto intro!: sum_list_nonneg)
  have "0 \<le> em_amount e * gwpFactor (em_type e)" if "e \<in> set (emissions input)" for e
    using that assms less_imp_le [OF gwpFactor_pos]
    by (intro mult_nonneg_nonneg) (auto simp: nonneg_input_def list_all_iff)
  then show "0 \<le> directGWP input"
    unfolding directGWP_sum by (auto intro!: sum_list_nonneg)
  show "0 \<le> waterGWP input"
    using assms by (simp add: waterGWP_def WATER_FACTOR_def nonneg_input_def)
qed

lemma shares_near_100:
  assumes "0 \<le> a" "0 \<le> b" "0 \<le> c" "0 \<le> d" and "0 < t"
    and "t = js_round ((a + c + b + d) * 100) / 100"
  shows "\<bar>share t a + share t b + share t c + share t d - 100\<bar> \<le> 2 + 1 / (2 * t)"
proof -
  let ?u = "a + c + b + d"
  from assms(5) have nz: "t \<noteq> 0" by simp
  have m: "max 0 a = a" "max 0 b = b" "max 0 c = c" "max 0 d = d"
    using assms(1-4) by simp_all
  have split: "?u / t * 100 = a / t * 100 + b / t * 100 + c / t * 100 + d / t * 100"
    by (simp add: add_divide_distrib distrib_right)
  have "\<bar>share t a - a / t * 100\<bar> \<le> 1 / 2" "\<bar>share t b - b / t * 100\<bar> \<le> 1 / 2"
    "\<bar>share t c - c / t * 100\<bar> \<le> 1 / 2" "\<bar>share t d - d / t * 100\<bar> \<le> 1 / 2"
    using share_near [of t a] share_near [of t b] share_near [of t c] share_near [of t d]
    by (simp_all only: m)
  then have 1: "\<bar>share t a + share t b + share t c + share t d - ?u / t * 100\<bar> \<le> 2"
    unfolding split by linarith
  have "\<bar>js_round (?u * 100) - ?u * 100\<bar> \<le> 1 / 2" by (rule js_round_near)
  moreover have "js_round (?u * 100) = t * 100"
    using assms(6) by simp
  ultimately have "\<bar>t * 100 - ?u * 100\<bar> \<le> 1 / 2" by (simp only:)
  then have "\<bar>t * 100 - ?u * 100\<bar> / t \<le> (1 / 2) / t"
    by (rule divide_right_mono) (use assms(5) in simp)
  moreover have "\<bar>t * 100 - ?u * 100\<bar> / t = \<bar>100 - ?u / t * 100\<bar>"
  proof -
    have "\<bar>t * 100 - ?u * 100\<bar> / t = \<bar>(t * 100 - ?u * 100) / t\<bar>"
      using assms(5) by simp
    also have "(t * 100 - ?u * 100) / t = 100 - ?u / t * 100"
      using nz by (simp add: diff_divide_distrib)
    finally show ?thesis .
  qed
  ultimately have 2: "\<bar>100 - ?u / t * 100\<bar> \<le> 1 / (2 * t)" by simp
  from 1 2 show ?thesis by linarith
qed

text \<open>
  Claim C1, as amended. For every input whose numeric fields are all at least 0 and whose
  total GWP \<open>T\<close> is greater than 0, the contributions of the hotspots sum to 100 within
  \<open>2 + 1 / (2 T)\<close>: each of the up to four contributions is rounded on its own, and they
  are shares of the total after its rounding to two decimals. For every input whose total
  GWP is 0 the list of hotspots is empty.
\<close>

theorem contribution_sum_bound:
  "(nonneg_input input \<and> calculateGWP input = Num T \<and> T > 0 \<longrightarrow>
      (\<exists>S. jsum (map contribution (identifyHotspots input)) = Num S
           \<and> \<bar>S - 100\<bar> \<le> 2 + 1 / (2 * T)))
   \<and> (calculateGWP input = Num 0 \<longrightarrow> identifyHotspots input = [])"
proof (intro conjI impI)
  assume "calculateGWP input = Num 0"
  then show "identifyHotspots input = []"
    by (simp add: identifyHotspots_def)
next
  assume a: "nonneg_input input \<and> calculateGWP input = Num T \<and> T > 0"
  then have known: "\<not> has_inherited_type input"
    using calculateGWP_NaN_iff [of input] by auto
  from a have T: "calculateGWP input = Num T" and pos: "0 < T" and nz: "T \<noteq> 0"
    by simp_all
  from T calculateGWP_categories [OF known]
  have eq: "T = js_round ((energySum input + directGWP input + transportGWP input
                             + waterGWP input) * 100) / 100"
    by simp
  from a have nn: "0 \<le> energySum input" "0 \<le> transportGWP input" "0 \<le> directGWP input"
    "0 \<le> waterGWP input"
    by (simp_all add: categories_nonneg)
  have "\<bar>share T (energySum input) + share T (transportGWP input) + share T (directGWP input)
          + share T (waterGWP input) - 100\<bar> \<le> 2 + 1 / (2 * T)"
    using nn pos eq by (rule shares_near_100)
  with identifyHotspots_contributions [OF known T nz]
  show "\<exists>S. jsum (map contribution (identifyHotspots input)) = Num S
           \<and> \<bar>S - 100\<bar> \<le> 2 + 1 / (2 * T)"
    by blast
qed

lemma copper_hotspots:
  "map contribution (identifyHotspots copper_example) = [Num 45, Num 45, Num 9, Num 1]"
  by code_simp

theorem contribution_sum_bound_witness:
  "nonneg_input copper_example \<and> calculateGWP copper_example = Num 19310.15
   \<and> jsum (map contribution (identifyHotspots copper_example)) = Num 100
   \<and> \<bar>(100::rat) - 100\<bar> \<le> 2 + 1 / (2 * 19310.15)"
proof -
  have pos: "(19310.15::rat) > 0" by simp
  from contribution_sum_bound [of copper_example "19310.15"] copper_nonneg copper_GWP pos
  obtain S where S: "jsum (map contribution (identifyHotspots copper_example)) = Num S"
    "\<bar>S - 100\<bar> \<le> 2 + 1 / (2 * 19310.15)"
    by blast
  have "jsum (map contribution (identifyHotspots copper_example)) = Num 100"
    by (simp add: copper_hotspots)
  with S have "S = 100" by simp
  with S copper_nonneg copper_GWP show ?thesis by simp
qed

text \<open>
  Claim C1 as it is stated fails: with four categories whose shares are 12.501, 12.501,
  12.501 and 62.501 per cent of a total GWP of 100.00, the contributions are 13, 13, 13 and
  63, and sum to 102.
\<close>

theorem contribution_sum_counterexample:
  "calculateGWP rounding_example = Num 100
   \<and> map contribution (identifyHotspots rounding_example) = [Num 63, Num 13, Num 13, Num 13]
   \<and> jsum (map contribution (identifyHotspots rounding_example)) = Num 102
   \<and> \<not> \<bar>(102::rat) - 100\<bar> \<le> 1"
  by code_simp

lemma small_total_contribution:
  \<comment> \<open>Below half a kilogram of total GWP the rounding of the total shows: here the one
      hotspot has 0.00688 of a total that rounds to 0.01.\<close>
  "calculateGWP tiny_water_example = Num 0.01
   \<and> map contribution (identifyHotspots tiny_water_example) = [Num 69]"
  by code_simp

lemma negative_amount_contribution:
  \<comment> \<open>A category below 0 stays out of the list but not out of the total.\<close>
  "calculateGWP negative_energy_example = Num 56.4
   \<and> map contribution (identifyHotspots negative_energy_example) = [Num 177]"
  by code_simp

lemma inherited_type_hotspots:
  \<comment> \<open>With a total that is NaN every contribution is NaN, and the list stays in the
      order of the pushes.\<close>
  "map area (identifyHotspots inherited_type_example) =
     [''Transportation'', ''Direct Process Emissions'', ''Water Usage'']
   \<and> map contribution (identifyHotspots inherited_type_example) = [NaN, NaN, NaN]"
  by code_simp


section \<open>The empty input\<close>










end
